theory Spec2Isabelle
  imports
    Complex_Main
    "HOL-Library.Sublist"
    "HOL-Library.Char_ord"
    "HOL-Library.List_Lexorder"
begin

section \<open>Document Q&A client: data model\<close>

text \<open>
  The repository under study is the React client of a document question-answering
  service. JavaScript values are modelled as follows: a string is a \<open>string\<close> (one
  \<open>char\<close> per code unit, for strings whose code units lie below 256), a number is
  a \<open>real\<close> (JSON carries no NaN and no infinity), an object property that may be
  absent, \<open>undefined\<close> or \<open>null\<close> is an \<open>option\<close>, and an array is a list. React state is passed explicitly: a handler
  takes the state of the render it was created in and returns the next state together
  with the HTTP requests it issued.
\<close>

subsection \<open>JavaScript values\<close>

text \<open>
  \<open>v || d\<close> yields \<open>d\<close> when \<open>v\<close> is falsy: absent, \<open>null\<close>, the number
  \<open>0\<close> or the empty string.
\<close>

definition num_or :: "real option \<Rightarrow> real \<Rightarrow> real" where
  "num_or v d = (case v of None \<Rightarrow> d | Some x \<Rightarrow> if x = 0 then d else x)"

definition str_or :: "string option \<Rightarrow> string \<Rightarrow> string" where
  "str_or v d = (case v of None \<Rightarrow> d | Some x \<Rightarrow> if x = [] then d else x)"

text \<open>
  \<open>String.prototype.trim\<close> removes white space and line terminators at both
  ends. Among the code units below 256 these are the tab, line feed, vertical tab, form
  feed, carriage return, space and no-break space (U+00A0).
\<close>

definition is_space :: "char \<Rightarrow> bool" where
  "is_space c =
     (c \<in> set [CHR 0x09, CHR 0x0A, CHR 0x0B, CHR 0x0C, CHR 0x0D, CHR 0x20, CHR 0xA0])"

definition trim :: "string \<Rightarrow> string" where
  "trim s = rev (dropWhile is_space (rev (dropWhile is_space s)))"

text \<open>
  \<open>String.prototype.toLowerCase\<close> on code units below 256: the letters A to Z and
  the capital letters of the Latin-1 block (U+00C0 to U+00DE without the
  multiplication sign U+00D7) move up by 32; every other code unit stays.
\<close>

definition lower_char :: "char \<Rightarrow> char" where
  "lower_char c =
     (if (CHR ''A'' \<le> c \<and> c \<le> CHR ''Z'')
         \<or> (CHR 0xC0 \<le> c \<and> c \<le> CHR 0xDE \<and> c \<noteq> CHR 0xD7)
      then char_of (of_char c + (32::nat)) else c)"

definition toLowerCase :: "string \<Rightarrow> string" where
  "toLowerCase s = map lower_char s"

definition endsWith :: "string \<Rightarrow> string \<Rightarrow> bool" where
  "endsWith s e = (length e \<le> length s \<and> drop (length s - length e) s = e)"

text \<open>
  What follows the last dot of a file name, \<open>name.split('.').pop()\<close>, for a name
  that has a dot.
\<close>

definition file_extension :: "string \<Rightarrow> string option" where
  "file_extension name =
     (if CHR ''.'' \<in> set name
      then Some (rev (takeWhile (\<lambda>c. c \<noteq> CHR ''.'') (rev name)))
      else None)"

subsection \<open>Query result items as the client reads them\<close>

text \<open>
  The objects in \<open>results\<close> (Search page) and in \<open>sources\<close> (QA page). Every
  property the pages read is listed; any of them may be absent.
\<close>

record item =
  document_id :: "string option"
  title :: "string option"
  document_title :: "string option"
  document_type :: "string option"
  created_at :: "string option"
  chunk_text :: "string option"
  similarity_score :: "real option"

text \<open>The similarity of an item, a missing score counting as 0.\<close>

definition similarity :: "item \<Rightarrow> real" where
  "similarity a = num_or (similarity_score a) 0"

subsection \<open>HTTP requests and responses\<close>

datatype json = JString string | JNumber int

type_synonym payload = "(string \<times> json) list"

record http_post =
  post_url :: string
  post_body :: payload

definition has_field :: "payload \<Rightarrow> string \<Rightarrow> bool" where
  "has_field p k = (map_of p k \<noteq> None)"

text \<open>
  A call of \<open>api.post\<close> either resolves with \<open>response.data\<close> or throws; the
  handlers read \<open>error.response?.data?.detail\<close> from what is thrown.
\<close>

datatype 'a response = Resolved 'a | Rejected "string option"

subsection \<open>DocumentContext: askQuestion and searchDocuments\<close>

record ask_data =
  answer :: string
  sources :: "item list option"
  confidence :: "real option"

datatype ask_result = AskSuccess ask_data | AskFailure string

definition success :: "ask_result \<Rightarrow> bool" where
  "success r = (case r of AskSuccess _ \<Rightarrow> True | AskFailure _ \<Rightarrow> False)"

text \<open>
  \<open>askQuestion\<close> returns the request it sent, its result object and the error
  toasts it raised.
\<close>

definition ask_payload :: "string \<Rightarrow> string option \<Rightarrow> payload" where
  "ask_payload question documentId =
     [(''question'', JString question)]
     @ (case documentId of
          None \<Rightarrow> []
        | Some d \<Rightarrow> if d = [] then [] else [(''document_id'', JString d)])"

definition askQuestion ::
  "(http_post \<Rightarrow> ask_data response) \<Rightarrow> string \<Rightarrow> string option
   \<Rightarrow> http_post \<times> ask_result \<times> string list" where
  "askQuestion api_post question documentId =
     (let req = \<lparr>post_url = ''/qa/ask'', post_body = ask_payload question documentId\<rparr>
      in case api_post req of
           Resolved data \<Rightarrow> (req, AskSuccess data, [])
         | Rejected detail \<Rightarrow>
             (let errorMessage = str_or detail ''Failed to get answer''
              in (req, AskFailure errorMessage, [errorMessage])))"

datatype search_result = SearchSuccess "item list option" | SearchFailure string

text \<open>The second parameter has the default value 10; \<open>None\<close> is an omitted argument.\<close>

definition search_payload :: "string \<Rightarrow> int option \<Rightarrow> payload" where
  "search_payload query limit =
     [(''query'', JString query),
      (''limit'', JNumber (case limit of None \<Rightarrow> 10 | Some n \<Rightarrow> n))]"

definition searchDocuments ::
  "(http_post \<Rightarrow> (item list option) response) \<Rightarrow> string \<Rightarrow> int option
   \<Rightarrow> http_post \<times> search_result \<times> string list" where
  "searchDocuments api_post query limit =
     (let req = \<lparr>post_url = ''/search'', post_body = search_payload query limit\<rparr>
      in case api_post req of
           Resolved data \<Rightarrow> (req, SearchSuccess data, [])
         | Rejected detail \<Rightarrow>
             (let errorMessage = str_or detail ''Search failed''
              in (req, SearchFailure errorMessage, [errorMessage])))"

text \<open>
  The parameter lists of the interface the spec declares for the request layer
  (section 6), as properties of a payload: \<open>ask\<close> takes the question, an optional
  document identifier, \<open>max_chunks\<close> and \<open>similarity_threshold\<close>; \<open>search\<close>
  takes the query, the maximum number of results and \<open>similarity_threshold\<close>. They
  are what the client's payloads are compared with.
\<close>

definition declared_ask_parameters :: "payload \<Rightarrow> string \<Rightarrow> bool \<Rightarrow> bool" where
  "declared_ask_parameters p question_text document_selected =
     (map_of p ''question'' = Some (JString question_text)
      \<and> (has_field p ''document_id'' \<longleftrightarrow> document_selected)
      \<and> has_field p ''max_chunks''
      \<and> has_field p ''similarity_threshold'')"

definition declared_search_parameters :: "payload \<Rightarrow> string \<Rightarrow> int \<Rightarrow> bool" where
  "declared_search_parameters p query_text max_count =
     (map_of p ''query'' = Some (JString query_text)
      \<and> map_of p ''max_results'' = Some (JNumber max_count)
      \<and> has_field p ''similarity_threshold'')"

subsection \<open>QA page\<close>

record message =
  msg_id :: int
  msg_type :: string
  content :: string
  msg_sources :: "item list option"
  msg_confidence :: "real option"
  timestamp :: string

record qa_state =
  question :: string
  selectedDocument :: string
  chatHistory :: "message list"
  loading :: bool

text \<open>
  \<open>handleSubmit\<close> reads the clock twice, before and after the request:
  \<open>Date.now()\<close> and \<open>new Date().toISOString()\<close> each time.
\<close>

record clock_reads =
  t_user :: int
  iso_user :: string
  t_reply :: int
  iso_reply :: string

definition handleSubmit ::
  "(http_post \<Rightarrow> ask_data response) \<Rightarrow> clock_reads \<Rightarrow> qa_state
   \<Rightarrow> qa_state \<times> http_post list \<times> string list" where
  "handleSubmit api_post clk s =
     (if trim (question s) = [] then (s, [], [''Please enter a question''])
      else
        let userMessage = \<lparr>msg_id = t_user clk, msg_type = ''user'', content = question s,
                             msg_sources = None, msg_confidence = None,
                             timestamp = iso_user clk\<rparr>;
            documentId = (if selectedDocument s = [] then None else Some (selectedDocument s))
        in case askQuestion api_post (question s) documentId of
             (req, AskSuccess data, toasts) \<Rightarrow>
               (let aiMessage = \<lparr>msg_id = t_reply clk + 1, msg_type = ''ai'',
                                   content = answer data,
                                   msg_sources =
                                     Some (case sources data of None \<Rightarrow> [] | Some xs \<Rightarrow> xs),
                                   msg_confidence =
                                     (case confidence data of
                                        None \<Rightarrow> None
                                      | Some c \<Rightarrow> if c = 0 then None else Some c),
                                   timestamp = iso_reply clk\<rparr>
                in (s\<lparr>question := [], chatHistory := chatHistory s @ [userMessage, aiMessage],
                       loading := False\<rparr>, [req], toasts))
           | (req, AskFailure err, toasts) \<Rightarrow>
               (let errorMessage = \<lparr>msg_id = t_reply clk + 1, msg_type = ''error'',
                                      content = str_or (Some err) ''Failed to get answer'',
                                      msg_sources = None, msg_confidence = None,
                                      timestamp = iso_reply clk\<rparr>
                in (s\<lparr>question := [], chatHistory := chatHistory s @ [userMessage, errorMessage],
                       loading := False\<rparr>, [req], toasts)))"

text \<open>
  What the chat renders for a message. \<open>message.confidence && (...)\<close> shows the
  badge for a truthy confidence; for the number 0 React prints the bare \<open>0\<close>.
  A badge is described by its colour classes and the confidence its label is computed
  from; the label itself, \<open>Math.round(confidence * 100)\<close> per cent, is the
  engine's double arithmetic and is not computed here.
\<close>

definition getConfidenceColor :: "real \<Rightarrow> string" where
  "getConfidenceColor c =
     (if c \<ge> 0.8 then ''text-green-600 bg-green-100''
      else if c \<ge> 0.6 then ''text-yellow-600 bg-yellow-100''
      else ''text-red-600 bg-red-100'')"

datatype confidence_view = NoBadge | ZeroText | Badge string real

definition render_confidence :: "real option \<Rightarrow> confidence_view" where
  "render_confidence v =
     (case v of
        None \<Rightarrow> NoBadge
      | Some c \<Rightarrow> if c = 0 then ZeroText
                  else Badge (getConfidenceColor c) c)"

record source_view =
  shown_title :: "string option"
  shown_excerpt :: "string option"

definition render_source :: "item \<Rightarrow> source_view" where
  "render_source source =
     \<lparr>shown_title = title source,
      shown_excerpt =
        (case chunk_text source of
           None \<Rightarrow> None
         | Some t \<Rightarrow> if t = [] then None else Some (take 100 t @ ''...''))\<rparr>"

definition render_sources :: "item list option \<Rightarrow> source_view list" where
  "render_sources v = (case v of None \<Rightarrow> [] | Some xs \<Rightarrow> map render_source xs)"

record message_view =
  view_content :: string
  view_confidence :: confidence_view
  view_sources :: "source_view list"

definition render_message :: "message \<Rightarrow> message_view" where
  "render_message m =
     (if msg_type m = ''ai''
      then \<lparr>view_content = content m,
            view_confidence = render_confidence (msg_confidence m),
            view_sources = render_sources (msg_sources m)\<rparr>
      else \<lparr>view_content = content m, view_confidence = NoBadge, view_sources = []\<rparr>)"

subsection \<open>Search page\<close>

text \<open>
  The values the comparator of \<open>sortedResults\<close> compares: numbers, \<open>Date\<close>
  objects (their time value, \<open>None\<close> for an invalid date, which compares as NaN) and
  strings (by code unit). Both values of a comparison come from the same \<open>switch\<close>
  arm, so values of different kinds are never compared. Parsing a date string is the
  engine's and is a parameter.
\<close>

datatype sort_value = NumV real | DateV "int option" | StrV string

fun js_less :: "sort_value \<Rightarrow> sort_value \<Rightarrow> bool" where
  "js_less (NumV a) (NumV b) = (a < b)"
| "js_less (DateV (Some a)) (DateV (Some b)) = (a < b)"
| "js_less (StrV a) (StrV b) = (a < b)"
| "js_less _ _ = False"

definition new_Date :: "(string \<Rightarrow> int option) \<Rightarrow> string option \<Rightarrow> sort_value" where
  "new_Date parse v =
     (case v of
        None \<Rightarrow> DateV (Some 0)
      | Some s \<Rightarrow> if s = [] then DateV (Some 0) else DateV (parse s))"

definition sort_values ::
  "(string \<Rightarrow> int option) \<Rightarrow> string \<Rightarrow> item \<Rightarrow> item \<Rightarrow> sort_value \<times> sort_value" where
  "sort_values parse sortBy a b =
     (if sortBy = ''similarity'' then
        (NumV (num_or (similarity_score a) 0), NumV (num_or (similarity_score b) 0))
      else if sortBy = ''date'' then
        (new_Date parse (created_at a), new_Date parse (created_at b))
      else if sortBy = ''title'' then
        (StrV (str_or (document_title a) []), StrV (str_or (document_title b) []))
      else
        (NumV (num_or (similarity_score a) 0), NumV (num_or (similarity_score b) 0)))"

definition compareResults ::
  "(string \<Rightarrow> int option) \<Rightarrow> string \<Rightarrow> string \<Rightarrow> item \<Rightarrow> item \<Rightarrow> int" where
  "compareResults parse sortBy sortOrder a b =
     (case sort_values parse sortBy a b of
        (aValue, bValue) \<Rightarrow>
          if sortOrder = ''asc'' then (if js_less bValue aValue then 1 else - 1)
          else (if js_less aValue bValue then 1 else - 1))"

text \<open>
  \<open>Array.prototype.sort\<close> is the engine's. It is modelled as the stable insertion
  sort that consults only the sign of the comparator: an element moves in front of the
  elements the comparator places after it. The comparator above never returns 0, so
  which of two items with equal keys comes first is left to the engine and is not
  what this model says; neither is the order under the date comparator when a date is
  invalid. The order by key under a numeric or string key is the same for every
  engine.
\<close>

fun insert_by :: "('a \<Rightarrow> 'a \<Rightarrow> int) \<Rightarrow> 'a \<Rightarrow> 'a list \<Rightarrow> 'a list" where
  "insert_by cmp x [] = [x]"
| "insert_by cmp x (y # ys) =
     (if cmp y x > 0 then x # y # ys else y # insert_by cmp x ys)"

definition array_sort :: "('a \<Rightarrow> 'a \<Rightarrow> int) \<Rightarrow> 'a list \<Rightarrow> 'a list" where
  "array_sort cmp xs = foldl (\<lambda>acc x. insert_by cmp x acc) [] xs"

definition sortedResults ::
  "(string \<Rightarrow> int option) \<Rightarrow> string \<Rightarrow> string \<Rightarrow> item list \<Rightarrow> item list" where
  "sortedResults parse sortBy sortOrder results =
     array_sort (compareResults parse sortBy sortOrder) results"

record search_state =
  query :: string
  results :: "item list"
  sortBy :: string
  sortOrder :: string
  hasSearched :: bool

definition search_initial :: search_state where
  "search_initial =
     \<lparr>query = [], results = [], sortBy = ''similarity'', sortOrder = ''desc'',
      hasSearched = False\<rparr>"

text \<open>
  \<open>handleSearch\<close> returns the next state and the requests it issued. The loading
  flag and the toasts of the page are feedback only and are left out.
\<close>

definition handleSearch ::
  "(http_post \<Rightarrow> (item list option) response) \<Rightarrow> search_state
   \<Rightarrow> search_state \<times> http_post list" where
  "handleSearch api_post s =
     (if trim (query s) = [] then (s, [])
      else case searchDocuments api_post (trim (query s)) (Some 20) of
             (req, SearchSuccess data, toasts) \<Rightarrow>
               (s\<lparr>results := (case data of None \<Rightarrow> [] | Some xs \<Rightarrow> xs),
                   hasSearched := True\<rparr>, [req])
           | (req, SearchFailure err, toasts) \<Rightarrow> (s\<lparr>hasSearched := True\<rparr>, [req]))"

subsection \<open>Documents page: status presentation\<close>

text \<open>
  \<open>getStatusIcon\<close> returns a JSX element: an icon component and its class name.
  Both functions are a \<open>switch\<close> with a \<open>default\<close> arm and contain no \<open>throw\<close>,
  so the model has no error result.
\<close>

datatype icon = CheckCircle | Loader2 | AlertCircle | Clock

definition getStatusIcon :: "string \<Rightarrow> icon \<times> string" where
  "getStatusIcon status =
     (if status = ''processed'' then (CheckCircle, ''h-4 w-4 text-green-600'')
      else if status = ''processing'' then (Loader2, ''h-4 w-4 text-blue-600 animate-spin'')
      else if status = ''error'' then (AlertCircle, ''h-4 w-4 text-red-600'')
      else (Clock, ''h-4 w-4 text-yellow-600''))"

definition getStatusColor :: "string \<Rightarrow> string" where
  "getStatusColor status =
     (if status = ''processed'' then ''bg-green-100 text-green-800''
      else if status = ''processing'' then ''bg-blue-100 text-blue-800''
      else if status = ''error'' then ''bg-red-100 text-red-800''
      else ''bg-yellow-100 text-yellow-800'')"

subsection \<open>Retriever: distance-to-similarity transform\<close>

text \<open>
  Modelled from the spec: the retriever and its vector store are server code that is
  not among the client sources. Section 4.3 fixes the transform as
  \<open>similarity = 1 / (1 + d)\<close> for an index distance \<open>d\<close>. It is taken over the
  reals, as the spec writes it; rounding of machine floats is outside this model.
\<close>

definition distance_to_similarity :: "real \<Rightarrow> real" where
  "distance_to_similarity d = 1 / (1 + d)"

text \<open>
  The retriever of section 4.3 is modelled with its two capabilities as
  parameters. \<open>embedder\<close> is the Embedding Provider (\<open>None\<close> when it is unavailable)
  and \<open>index_query namespace vector k filter\<close> is the Vector Index, which returns
  hits with their distance and the chunk's metadata. The steps are the spec's: embed
  the query, query the index in the user's namespace for more than \<open>top_k\<close>
  candidates (\<open>extra\<close> says how many more), turn distances into similarities,
  drop the results strictly below the floor, and return at most \<open>top_k\<close> items in
  descending similarity.
\<close>

datatype retrieve_error = EmbeddingProviderUnavailable

record hit =
  hit_id :: string
  hit_distance :: real
  hit_metadata :: item

text \<open>
  Modelled from the spec: the retriever's conversion of an index hit into a Query
  Result Item (section 3), the chunk's metadata with the similarity derived from the
  hit's distance.
\<close>

definition to_result_item :: "hit \<Rightarrow> item" where
  "to_result_item h =
     (hit_metadata h)\<lparr>similarity_score := Some (distance_to_similarity (hit_distance h))\<rparr>"

text \<open>
  Modelled from the spec: the contract \<open>retrieve(user_id, query_text, top_k,
  similarity_floor, optional document_id filter)\<close> of section 4.3; the retriever
  itself is server code that is not among the client sources.
\<close>

definition retrieve ::
  "(string \<Rightarrow> real list option)
   \<Rightarrow> (string \<Rightarrow> real list \<Rightarrow> nat \<Rightarrow> string option \<Rightarrow> hit list)
   \<Rightarrow> nat \<Rightarrow> string \<Rightarrow> string \<Rightarrow> nat \<Rightarrow> real \<Rightarrow> string option
   \<Rightarrow> retrieve_error + item list" where
  "retrieve embedder index_query extra user_id query_text top_k similarity_floor document_filter =
     (case embedder query_text of
        None \<Rightarrow> Inl EmbeddingProviderUnavailable
      | Some v \<Rightarrow>
          (let hits = index_query user_id v (top_k + Suc extra) document_filter;
               scored = map to_result_item hits;
               kept = filter (\<lambda>r. \<not> similarity r < similarity_floor) scored
           in Inr (take top_k (sort_key (\<lambda>r. - similarity r) kept))))"

subsection \<open>Chunker\<close>

text \<open>
  A chunk as section 3 of the spec describes it: its ordinal index within the
  document, its character offset range into the normalized text, and its text span.
\<close>

record chunk_rec =
  ordinal :: nat
  start_offset :: nat
  end_offset :: nat
  span_text :: string

text \<open>
  Modelled from the spec: the chunker is server code that is not among the client
  sources. Section 4.2 describes a sliding window over the normalized text that
  advances by \<open>chunk_size - overlap\<close> characters per step. \<open>window\<close> is the chunk
  at step \<open>k\<close>: it starts at \<open>k * (chunk_size - overlap)\<close>, records that offset,
  and spans \<open>chunk_size\<close> characters or what is left of the text.
\<close>

definition window :: "string \<Rightarrow> nat \<Rightarrow> nat \<Rightarrow> nat \<Rightarrow> chunk_rec" where
  "window ntext S ov k =
     \<lparr>ordinal = k, start_offset = k * (S - ov),
      end_offset = min (k * (S - ov) + S) (length ntext),
      span_text = take S (drop (k * (S - ov)) ntext)\<rparr>"

text \<open>
  Modelled from the spec: what section 4.2 says of the sequence a chunker produces,
  for any chunker. The chunks are the windows at the steps 0, 1, 2 and so on; every
  chunk before the final one is a full window of \<open>chunk_size\<close> characters; the final
  chunk may be shorter but is not empty, and the window has then reached the end of
  the text; the empty text has no chunk. The spec does not say at which step a chunker
  stops when more than one step meets these conditions, so the conditions are a
  relation: for 2600 characters, size 1000 and overlap 200 both the four chunks of the
  scenario in section 8 and the first three of them satisfy it. The whitespace snap of
  the boundaries is, in the spec's words, a quality heuristic that must not leak into
  the chunk-count invariants; the relation describes the hard character cuts. The
  invariant \<open>overlap < chunk_size\<close> is the caller's.
\<close>

fun windows_from :: "string \<Rightarrow> nat \<Rightarrow> nat \<Rightarrow> nat \<Rightarrow> chunk_rec list \<Rightarrow> bool" where
  "windows_from ntext S ov k [] = False"
| "windows_from ntext S ov k [c] =
     (c = window ntext S ov k \<and> k * (S - ov) < length ntext
      \<and> length ntext \<le> k * (S - ov) + S)"
| "windows_from ntext S ov k (c # c' # cs) =
     (c = window ntext S ov k \<and> k * (S - ov) + S \<le> length ntext
      \<and> windows_from ntext S ov (Suc k) (c' # cs))"

definition is_chunking :: "string \<Rightarrow> nat \<Rightarrow> nat \<Rightarrow> chunk_rec list \<Rightarrow> bool" where
  "is_chunking ntext S ov cs =
     (if ntext = [] then cs = [] else windows_from ntext S ov 0 cs)"

text \<open>
  Modelled from the spec: one chunker that meets section 4.2. After a full window it
  slides on as long as the next window is not empty; a window cut short by the end of
  the text is the final one. It gives the four chunks of the scenario in section 8.
  Outside the invariant \<open>overlap < chunk_size\<close> it produces no chunk.
\<close>

function chunk_from :: "string \<Rightarrow> nat \<Rightarrow> nat \<Rightarrow> nat \<Rightarrow> chunk_rec list" where
  "chunk_from ntext S ov k =
     (if S \<le> ov \<or> length ntext \<le> k * (S - ov) then []
      else window ntext S ov k
           # (if k * (S - ov) + S \<le> length ntext then chunk_from ntext S ov (Suc k) else []))"
  by pat_completeness auto
termination
  by (relation "measure (\<lambda>(ntext, S, ov, k). length ntext - k * (S - ov))") auto

declare chunk_from.simps [simp del]

text \<open>
  Modelled from the spec: the contract \<open>chunk(normalized_text, chunk_size, overlap)\<close>
  of section 4.2, the window started at step 0; the chunker itself is server code
  that is not among the client sources.
\<close>

definition chunk :: "string \<Rightarrow> nat \<Rightarrow> nat \<Rightarrow> chunk_rec list" where
  "chunk normalized_text chunk_size overlap = chunk_from normalized_text chunk_size overlap 0"

text \<open>
  Modelled from the spec: the character range of a chunk (section 3), from its start
  offset up to but excluding its end offset.
\<close>

definition chunk_range :: "chunk_rec \<Rightarrow> nat set" where
  "chunk_range c = {start_offset c ..< end_offset c}"

subsection \<open>Upload page\<close>

record js_file =
  file_name :: string
  file_type :: string
  file_size :: nat

text \<open>The options the page passes to \<open>useDropzone\<close>.\<close>

definition accept :: "(string \<times> string list) list" where
  "accept =
     [(''application/pdf'', [''.pdf'']),
      (''application/vnd.openxmlformats-officedocument.wordprocessingml.document'', [''.docx'']),
      (''text/plain'', [''.txt'']),
      (''text/markdown'', [''.md''])]"

definition maxSize :: nat where
  "maxSize = 10 * 1024 * 1024"

text \<open>
  \<open>useDropzone\<close> belongs to the react-dropzone package, which reads the offered
  files through the file-selector package and tests each of them with the attr-accept
  package. They are dependencies of the client and not part of its sources; the
  selection is modelled as they carry it out, in three steps.

  First file-selector looks at every offered file: a file with an empty type whose
  name has an extension gets the MIME type that file-selector's table of common types
  lists for the extension in lower case, if it lists one. The table is a parameter.
\<close>

definition withMimeType :: "(string \<Rightarrow> string option) \<Rightarrow> js_file \<Rightarrow> js_file" where
  "withMimeType common_mime_types f =
     (case file_extension (file_name f) of
        None \<Rightarrow> f
      | Some ext \<Rightarrow>
          if file_type f = [] then
            (case common_mime_types (toLowerCase ext) of
               None \<Rightarrow> f
             | Some t \<Rightarrow> if t = [] then f else f\<lparr>file_type := t\<rparr>)
          else f)"

text \<open>
  Then the \<open>accept\<close> option is tested: attr-accept passes a file whose type in lower
  case is one of the MIME types of the option or whose name in lower case ends in one
  of its extensions, and react-dropzone also passes every file of the type
  \<open>application/x-moz-file\<close>.
\<close>

definition attr_accept :: "js_file \<Rightarrow> bool" where
  "attr_accept f =
     (toLowerCase (file_type f) \<in> set (map fst accept)
      \<or> (\<exists>e \<in> set (concat (map snd accept)). endsWith (toLowerCase (file_name f)) e))"

definition fileAccepted :: "js_file \<Rightarrow> bool" where
  "fileAccepted f = (file_type f = ''application/x-moz-file'' \<or> attr_accept f)"

text \<open>
  Last the \<open>maxSize\<close> option: a file passes when its size does not exceed it. With
  \<open>multiple: true\<close> and no limit on the number of files every file of a selection
  is judged on its own, and \<open>onDrop\<close> receives the files that pass both tests.
\<close>

definition fileMatchSize :: "js_file \<Rightarrow> bool" where
  "fileMatchSize f = (file_size f \<le> maxSize)"

definition acceptedFiles :: "(string \<Rightarrow> string option) \<Rightarrow> js_file list \<Rightarrow> js_file list" where
  "acceptedFiles common_mime_types offered =
     filter (\<lambda>f. fileAccepted f \<and> fileMatchSize f) (map (withMimeType common_mime_types) offered)"

text \<open>
  The allowlist as the upload validation is stated: the file kinds pdf, docx, txt and
  md. A file is outside it when its MIME type is none of the four types of these
  kinds and the extension of its name is none of the four kinds either. It is what
  the dropzone's test is compared with.
\<close>

definition allowlist :: "string list" where
  "allowlist = [''pdf'', ''docx'', ''txt'', ''md'']"

definition type_outside_allowlist :: "js_file \<Rightarrow> bool" where
  "type_outside_allowlist f =
     (toLowerCase (file_type f) \<notin> set (map fst accept)
      \<and> (case file_extension (file_name f) of
            None \<Rightarrow> True
          | Some e \<Rightarrow> toLowerCase e \<notin> set allowlist))"

record fileObj =
  fo_file :: js_file
  fo_id :: string
  fo_status :: string
  fo_progress :: nat

record form_data =
  fd_title :: string
  fd_description :: string

record upload_state =
  uploadedFiles :: "fileObj list"
  formData :: form_data

definition upload_initial :: upload_state where
  "upload_initial = \<lparr>uploadedFiles = [], formData = \<lparr>fd_title = [], fd_description = []\<rparr>\<rparr>"

text \<open>
  \<open>name.replace(/\.[^/.]+$/, "")\<close>: a final dot followed by at least one character,
  none of them a slash, is removed together with what follows it.
\<close>

definition remove_extension :: "string \<Rightarrow> string" where
  "remove_extension name =
     (let ext = takeWhile (\<lambda>c. c \<noteq> CHR ''.'') (rev name)
      in if length ext < length name \<and> ext \<noteq> [] \<and> CHR ''/'' \<notin> set ext
         then take (length name - length ext - 1) name
         else name)"

text \<open>
  \<open>onDrop\<close> gets the accepted files and gives each an identifier drawn from
  \<open>Math.random\<close>; \<open>random k\<close> is the draw for the file at index \<open>k\<close>.
\<close>

definition onDrop :: "(nat \<Rightarrow> string) \<Rightarrow> js_file list \<Rightarrow> upload_state \<Rightarrow> upload_state" where
  "onDrop random accepted s =
     (let newFiles = map (\<lambda>k. \<lparr>fo_file = accepted ! k, fo_id = random k,
                                   fo_status = ''pending'', fo_progress = 0\<rparr>)
                         [0 ..< length accepted]
      in s\<lparr>uploadedFiles := uploadedFiles s @ newFiles,
           formData :=
             (if length accepted = 1 \<and> fd_title (formData s) = []
              then (formData s)\<lparr>fd_title := remove_extension (file_name (hd accepted))\<rparr>
              else formData s)\<rparr>)"

definition removeFile :: "string \<Rightarrow> upload_state \<Rightarrow> upload_state" where
  "removeFile fileId s = s\<lparr>uploadedFiles := filter (\<lambda>f. fo_id f \<noteq> fileId) (uploadedFiles s)\<rparr>"

definition handleInputChange :: "string \<Rightarrow> string \<Rightarrow> upload_state \<Rightarrow> upload_state" where
  "handleInputChange name v s =
     (if name = ''title'' then s\<lparr>formData := (formData s)\<lparr>fd_title := v\<rparr>\<rparr>
      else if name = ''description'' then s\<lparr>formData := (formData s)\<lparr>fd_description := v\<rparr>\<rparr>
      else s)"

record upload_request =
  up_file :: js_file
  up_title :: string
  up_description :: string

text \<open>
  \<open>uploadDocument\<close> posts the form to \<open>/documents/upload\<close> and reports success or
  failure; the server's answer to a request is the parameter \<open>api_upload\<close>.
\<close>

definition uploadDocument ::
  "(upload_request \<Rightarrow> bool) \<Rightarrow> js_file \<Rightarrow> string \<Rightarrow> string \<Rightarrow> upload_request \<times> bool" where
  "uploadDocument api_upload f ttl description =
     (let req = \<lparr>up_file = f, up_title = (if ttl = [] then file_name f else ttl),
                  up_description = description\<rparr>
      in (req, api_upload req))"

text \<open>
  The two \<open>setUploadedFiles\<close> updates of the upload page's \<open>handleSubmit\<close>: the
  entries with the identifier of the uploaded file are marked completed or failed.
\<close>

definition mark_uploaded :: "fileObj \<Rightarrow> bool \<Rightarrow> fileObj list \<Rightarrow> fileObj list" where
  "mark_uploaded x ok current =
     map (\<lambda>f. if fo_id f = fo_id x
               then (if ok then f\<lparr>fo_status := ''completed'', fo_progress := 100\<rparr>
                     else f\<lparr>fo_status := ''error''\<rparr>)
               else f) current"

text \<open>
  The loop of \<open>handleSubmit\<close> over the files of its render: each file is uploaded
  and its entry in the current list is marked. It returns the final list and the
  upload requests in the order they were sent.
\<close>

fun upload_all ::
  "(upload_request \<Rightarrow> bool) \<Rightarrow> form_data \<Rightarrow> fileObj list \<Rightarrow> fileObj list
   \<Rightarrow> fileObj list \<times> upload_request list" where
  "upload_all api_upload fd [] current = (current, [])"
| "upload_all api_upload fd (x # xs) current =
     (let result = uploadDocument api_upload (fo_file x)
                     (if fd_title fd = [] then file_name (fo_file x) else fd_title fd)
                     (fd_description fd);
          rest = upload_all api_upload fd xs (mark_uploaded x (snd result) current)
      in (fst rest, fst result # snd rest))"

text \<open>
  \<open>hasErrors\<close> is computed from the list of the render the handler was created in,
  as the source does.
\<close>

definition handleSubmit_upload ::
  "(upload_request \<Rightarrow> bool) \<Rightarrow> upload_state \<Rightarrow> upload_state \<times> upload_request list" where
  "handleSubmit_upload api_upload s =
     (if uploadedFiles s = [] then (s, [])
      else case upload_all api_upload (formData s) (uploadedFiles s) (uploadedFiles s) of
             (final, reqs) \<Rightarrow>
               (let hasErrors = (\<exists>f \<in> set (uploadedFiles s). fo_status f = ''error'')
                in if \<not> hasErrors
                   then (\<lparr>uploadedFiles = [],
                          formData = \<lparr>fd_title = [], fd_description = []\<rparr>\<rparr>, reqs)
                   else (s\<lparr>uploadedFiles := final\<rparr>, reqs)))"

text \<open>
  What can happen on the page: files are offered to the dropzone (with the random
  draws of that drop), a file is removed from the list, a form field is edited, the
  form is submitted (with the server's behaviour during that submission). A submission
  runs to its end before the next event.
\<close>

datatype event =
    Offer "js_file list" "nat \<Rightarrow> string"
  | Remove string
  | Edit string string
  | Submit "upload_request \<Rightarrow> bool"

fun upload_step ::
  "(string \<Rightarrow> string option) \<Rightarrow> upload_state \<times> upload_request list \<Rightarrow> event
   \<Rightarrow> upload_state \<times> upload_request list" where
  "upload_step common_mime_types (s, sent) (Offer offered random) =
     (onDrop random (acceptedFiles common_mime_types offered) s, sent)"
| "upload_step common_mime_types (s, sent) (Remove fileId) = (removeFile fileId s, sent)"
| "upload_step common_mime_types (s, sent) (Edit name v) = (handleInputChange name v s, sent)"
| "upload_step common_mime_types (s, sent) (Submit api_upload) =
     (case handleSubmit_upload api_upload s of (s', reqs) \<Rightarrow> (s', sent @ reqs))"

definition upload_run ::
  "(string \<Rightarrow> string option) \<Rightarrow> event list \<Rightarrow> upload_state \<times> upload_request list" where
  "upload_run common_mime_types events =
     foldl (upload_step common_mime_types) (upload_initial, []) events"

text \<open>
  A file is valid for upload when it passes both tests of the dropzone; the invariant
  of the page is that every listed file and every upload request carries a valid file.
\<close>

definition valid_upload :: "js_file \<Rightarrow> bool" where
  "valid_upload f = (fileAccepted f \<and> fileMatchSize f)"

definition all_valid :: "upload_state \<times> upload_request list \<Rightarrow> bool" where
  "all_valid c = ((\<forall>f \<in> fo_file ` set (uploadedFiles (fst c)). valid_upload f)
                  \<and> (\<forall>f \<in> up_file ` set (snd c). valid_upload f))"

subsection \<open>Sample data\<close>

text \<open>
  A table of common types with the one entry the worked examples consult: like
  file-selector's table, it lists \<open>text/plain\<close> for the extension \<open>log\<close>.
\<close>

definition log_mime_table :: "string \<Rightarrow> string option" where
  "log_mime_table = map_of [(''log'', ''text/plain'')]"

text \<open>An item with a document identifier and a score, used in the worked examples.\<close>

definition scored_item :: "string \<Rightarrow> real option \<Rightarrow> item" where
  "scored_item d sc =
     \<lparr>document_id = Some d, title = None, document_title = None, document_type = None,
      created_at = None, chunk_text = None, similarity_score = sc\<rparr>"

section \<open>Properties\<close>

subsection \<open>Status presentation\<close>

text \<open>
  C10. \<open>getStatusIcon\<close> and \<open>getStatusColor\<close> are total: they are plain functions
  of the status string with a value for every input. The three known statuses have
  their own presentation, and every other status string, \<open>pending\<close> included, gets
  the one default presentation (the yellow clock).
\<close>

theorem status_presentation_default:
  assumes "status \<notin> {''processed'', ''processing'', ''error''}"
  shows "getStatusIcon status = (Clock, ''h-4 w-4 text-yellow-600'')
       \<and> getStatusColor status = ''bg-yellow-100 text-yellow-800''
       \<and> getStatusIcon status = getStatusIcon ''pending''
       \<and> getStatusColor status = getStatusColor ''pending''"
  using assms by (simp add: getStatusIcon_def getStatusColor_def)

theorem status_presentation_default_witness:
  "''archived'' \<notin> {''processed'', ''processing'', ''error''}
   \<and> getStatusIcon ''archived'' = (Clock, ''h-4 w-4 text-yellow-600'')
   \<and> getStatusColor ''archived'' = ''bg-yellow-100 text-yellow-800''
   \<and> getStatusIcon ''archived'' = getStatusIcon ''pending''
   \<and> getStatusColor ''archived'' = getStatusColor ''pending''"
proof -
  have h: "''archived'' \<notin> {''processed'', ''processing'', ''error''}" by simp
  from status_presentation_default [OF h] h show ?thesis by blast
qed

subsection \<open>Similarity transform\<close>

text \<open>
  C8. For every distance \<open>d \<ge> 0\<close> the similarity \<open>1 / (1 + d)\<close> lies in the
  interval \<open>(0, 1]\<close>, and the transform is strictly decreasing: of two distances
  \<open>0 \<le> d1 < d2\<close> the smaller one has the strictly larger similarity.
\<close>

theorem distance_to_similarity_bounded_decreasing:
  "(0 \<le> d \<longrightarrow> 0 < distance_to_similarity d \<and> distance_to_similarity d \<le> 1)
   \<and> (0 \<le> d1 \<and> d1 < d2 \<longrightarrow> distance_to_similarity d2 < distance_to_similarity d1)"
proof (intro conjI impI)
  assume "0 \<le> d"
  then show "0 < distance_to_similarity d"
    by (simp add: distance_to_similarity_def)
next
  assume "0 \<le> d"
  then show "distance_to_similarity d \<le> 1"
    by (simp add: distance_to_similarity_def)
next
  assume "0 \<le> d1 \<and> d1 < d2"
  then have "0 < 1 + d1" and "1 + d1 < 1 + d2" by simp_all
  then show "distance_to_similarity d2 < distance_to_similarity d1"
    unfolding distance_to_similarity_def
    by (intro divide_strict_left_mono) (simp_all add: mult_pos_pos)
qed

theorem distance_to_similarity_bounded_decreasing_witness:
  "(0::real) \<le> 3 \<and> 0 < distance_to_similarity 3 \<and> distance_to_similarity 3 \<le> 1
   \<and> (0::real) \<le> 1 \<and> (1::real) < 3
   \<and> distance_to_similarity 3 < distance_to_similarity 1"
  using distance_to_similarity_bounded_decreasing [of 3 1 3] by simp

subsection \<open>Chunker\<close>

lemma chunk_from_windows:
  "ov < S \<Longrightarrow> k * (S - ov) < length ntext \<Longrightarrow> windows_from ntext S ov k (chunk_from ntext S ov k)"
proof (induction ntext S ov k rule: chunk_from.induct)
  case (1 ntext S ov k)
  show ?case
  proof (cases "k * (S - ov) + S \<le> length ntext \<and> Suc k * (S - ov) < length ntext")
    case True
    then have rec: "windows_from ntext S ov (Suc k) (chunk_from ntext S ov (Suc k))"
      using 1 by simp
    then obtain c' cs where ne: "chunk_from ntext S ov (Suc k) = c' # cs"
      by (cases "chunk_from ntext S ov (Suc k)") auto
    have "chunk_from ntext S ov k = window ntext S ov k # c' # cs"
      using 1(2,3) True ne by (simp add: chunk_from.simps [of ntext S ov k])
    with rec ne True show ?thesis by simp
  next
    case False
    have d: "S - ov \<le> S" by simp
    have "chunk_from ntext S ov k = [window ntext S ov k]"
    proof (cases "k * (S - ov) + S \<le> length ntext")
      case True
      with False have "length ntext \<le> Suc k * (S - ov)" by simp
      then have "chunk_from ntext S ov (Suc k) = []"
        by (simp add: chunk_from.simps [of ntext S ov "Suc k"])
      with 1(2,3) True show ?thesis by (simp add: chunk_from.simps [of ntext S ov k])
    next
      case F: False
      with 1(2,3) show ?thesis by (simp add: chunk_from.simps [of ntext S ov k])
    qed
    moreover have "length ntext \<le> k * (S - ov) + S"
    proof (cases "k * (S - ov) + S \<le> length ntext")
      case True
      with False have "length ntext \<le> Suc k * (S - ov)" by simp
      also have "\<dots> \<le> k * (S - ov) + S" using d by simp
      finally show ?thesis .
    next
      case F: False
      then show ?thesis by simp
    qed
    ultimately show ?thesis using 1(3) by simp
  qed
qed

lemma chunk_is_chunking: "ov < S \<Longrightarrow> is_chunking ntext S ov (chunk ntext S ov)"
proof (cases "ntext = []")
  case True
  then show ?thesis by (simp add: is_chunking_def chunk_def chunk_from.simps [of "[]" S ov 0])
next
  case False
  assume "ov < S"
  with False chunk_from_windows [of ov S 0 ntext] show ?thesis
    by (simp add: is_chunking_def chunk_def)
qed

lemma windows_from_nonempty: "windows_from ntext S ov k cs \<Longrightarrow> cs \<noteq> []"
  by (cases cs) auto

lemma windows_from_last:
  "windows_from ntext S ov k cs \<Longrightarrow>
   last cs = window ntext S ov (k + length cs - 1)
   \<and> (k + length cs - 1) * (S - ov) < length ntext
   \<and> length ntext \<le> (k + length cs - 1) * (S - ov) + S"
  by (induction ntext S ov k cs rule: windows_from.induct) auto

lemma windows_from_full:
  "windows_from ntext S ov k cs \<Longrightarrow> 2 \<le> length cs \<Longrightarrow>
   (k + length cs - 2) * (S - ov) + S \<le> length ntext"
proof (induction ntext S ov k cs rule: windows_from.induct)
  case (3 ntext S ov k c c' cs)
  show ?case
  proof (cases cs)
    case Nil
    with 3(2) show ?thesis by simp
  next
    case (Cons a rest)
    with 3 show ?thesis by simp
  qed
qed auto

lemma windows_from_union:
  "ov < S \<Longrightarrow> windows_from ntext S ov k cs \<Longrightarrow>
   (\<Union>c \<in> set cs. chunk_range c) = {k * (S - ov) ..< length ntext}"
proof (induction ntext S ov k cs rule: windows_from.induct)
  case (1 ntext S ov k)
  then show ?case by simp
next
  case (2 ntext S ov k c)
  then show ?case by (auto simp: chunk_range_def window_def)
next
  case (3 ntext S ov k c c' cs)
  then have IH: "(\<Union>c \<in> set (c' # cs). chunk_range c) = {Suc k * (S - ov) ..< length ntext}"
    by simp
  have c: "chunk_range c = {k * (S - ov) ..< k * (S - ov) + S}"
    using 3(3) by (simp add: chunk_range_def window_def min_def)
  have full: "k * (S - ov) + S \<le> length ntext" using 3(3) by simp
  have "(\<Union>c \<in> set (c # c' # cs). chunk_range c)
        = {k * (S - ov) ..< k * (S - ov) + S} \<union> {Suc k * (S - ov) ..< length ntext}"
    using IH c by simp
  also have "\<dots> = {k * (S - ov) ..< length ntext}"
    using full 3(2) by auto
  finally show ?case .
qed


lemma window_text:
  "span_text (window ntext S ov k)
   = take (end_offset (window ntext S ov k) - start_offset (window ntext S ov k))
       (drop (start_offset (window ntext S ov k)) ntext)"
  by (cases "k * (S - ov) + S \<le> length ntext") (simp_all add: window_def min_def)

lemma windows_from_texts:
  "windows_from ntext S ov k cs \<Longrightarrow> c \<in> set cs \<Longrightarrow>
   span_text c = take (end_offset c - start_offset c) (drop (start_offset c) ntext)"
  by (induction ntext S ov k cs rule: windows_from.induct) (auto simp: window_text)

lemma count_lower:
  fixes L S ov n :: nat
  assumes "ov < S" "L \<le> (n - 1) * (S - ov) + S" "0 < n"
  shows "\<lceil>(real L - real ov) / (real S - real ov)\<rceil> \<le> int n"
proof -
  have dpos: "0 < real S - real ov" using assms(1) by simp
  have "(n - 1) * (S - ov) + S = n * (S - ov) + ov"
  proof -
    from assms(3) obtain m where n: "n = Suc m" by (cases n) auto
    show ?thesis using assms(1) by (simp add: n)
  qed
  with assms(2) have "L \<le> n * (S - ov) + ov" by simp
  then have "real L \<le> real (n * (S - ov) + ov)" by (simp only: of_nat_le_iff)
  then have "real L - real ov \<le> real n * (real S - real ov)"
    using assms(1) by (simp add: of_nat_diff)
  then have "(real L - real ov) / (real S - real ov) \<le> real n"
    using dpos by (simp add: divide_le_eq)
  then have "(real L - real ov) / (real S - real ov) \<le> of_int (int n)" by simp
  then show ?thesis by (simp only: ceiling_le_iff)
qed

lemma count_upper:
  fixes L S ov n :: nat
  assumes "ov < S" "ov \<le> L" "2 \<le> n \<longrightarrow> (n - 2) * (S - ov) + S \<le> L"
  shows "int n \<le> \<lceil>(real L - real ov) / (real S - real ov)\<rceil> + 1"
proof (cases "2 \<le> n")
  case False
  have "0 \<le> (real L - real ov) / (real S - real ov)" using assms(1,2) by simp
  then have "0 \<le> \<lceil>(real L - real ov) / (real S - real ov)\<rceil>" by simp
  moreover from False have "int n \<le> 1" by simp
  ultimately show ?thesis by linarith
next
  case True
  define d where "d = S - ov"
  have rd: "real d = real S - real ov" using assms(1) by (simp add: d_def of_nat_diff)
  have dpos: "0 < real d" using assms(1) by (simp add: d_def)
  from True obtain m where n: "n = Suc (Suc m)" by (cases n; cases "n - 1") auto
  from True assms(3) have "(n - 2) * d + S \<le> L" by (simp add: d_def)
  moreover have "S = d + ov" using assms(1) by (simp add: d_def)
  ultimately have "Suc m * d + ov \<le> L" by (simp add: n)
  then have "real (Suc m * d + ov) \<le> real L" by (simp only: of_nat_le_iff)
  then have "real (Suc m) * real d \<le> real L - real ov" by (simp add: algebra_simps)
  then have "real (Suc m) \<le> (real L - real ov) / real d"
    using dpos by (simp only: le_divide_eq) simp
  then have "of_int (int (Suc m)) - 1 < (real L - real ov) / real d" by simp
  then have "int (Suc m) \<le> \<lceil>(real L - real ov) / real d\<rceil>"
    by (simp only: le_ceiling_iff)
  then show ?thesis by (simp add: n rd)
qed

text \<open>
  A text shorter than the chunk size has one chunking only, the single chunk that
  holds it. The scenario of section 8 is what \<open>chunk\<close> produces, and its first three
  chunks are a chunking too.
\<close>

lemma chunking_short_text:
  assumes "ntext \<noteq> []" "length ntext < S" "is_chunking ntext S ov cs"
  shows "cs = [window ntext S ov 0]"
proof (cases cs)
  case Nil
  with assms show ?thesis by (simp add: is_chunking_def)
next
  case (Cons c rest)
  with assms show ?thesis by (cases rest) (simp_all add: is_chunking_def)
qed

lemma chunk_scenario:
  "map (\<lambda>c. (start_offset c, end_offset c)) (chunk (replicate 2600 CHR ''a'') 1000 200)
   = [(0, 1000), (800, 1800), (1600, 2600), (2400, 2600)]"
  by (simp add: chunk_def chunk_from.simps window_def)

lemma chunk_scenario_three:
  "is_chunking (replicate 2600 CHR ''a'') 1000 200
     (map (window (replicate 2600 CHR ''a'') 1000 200) [0, 1, 2])"
  by (simp add: is_chunking_def numeral_2_eq_2)

text \<open>
  C2, as stated, fails on the count, whatever the chunker. The formula
  \<open>\<lceil>(L - O) / (S - O)\<rceil>\<close> is negative for a text much shorter than the overlap:
  with chunk size 10 and overlap 9 it is -8 for a text of one character, which has
  exactly one chunk, and -9 for the empty text, which has none. Neither count is
  within 1 of the formula.
\<close>

theorem chunk_count_formula_counterexample:
  "(9::nat) < 10
   \<and> is_chunking ''a'' 10 9 (chunk ''a'' 10 9)
   \<and> length (chunk ''a'' 10 9) = 1
   \<and> \<not> (\<bar>int (length (chunk ''a'' 10 9))
          - \<lceil>(real (length ''a'') - real (9::nat)) / (real (10::nat) - real (9::nat))\<rceil>\<bar> \<le> 1)
   \<and> chunk [] 10 9 = []
   \<and> \<not> (\<bar>int (length (chunk [] 10 9))
          - \<lceil>(real (length ([]::string)) - real (9::nat))
              / (real (10::nat) - real (9::nat))\<rceil>\<bar> \<le> 1)"
proof -
  have a: "chunk ''a'' 10 9 = [window ''a'' 10 9 0]"
    by (simp add: chunk_def chunk_from.simps)
  have e: "chunk [] 10 9 = []"
    by (simp add: chunk_def chunk_from.simps)
  have w: "is_chunking ''a'' 10 9 [window ''a'' 10 9 0]"
    by (simp add: is_chunking_def)
  show ?thesis unfolding a e using w by simp
qed

text \<open>
  C2, amended. For \<open>overlap < chunk_size\<close>, \<open>chunk\<close> produces a chunking that meets
  section 4.2, and every such chunking has these properties. The number of chunks is
  never less than \<open>\<lceil>(L - O) / (S - O)\<rceil>\<close>, and when the text is at least as long
  as the overlap it is that number or one more. For a non-empty text there is a final
  chunk, it is not empty, at most \<open>S\<close> long, and ends at \<open>L\<close>. Every chunk holds
  the characters of its range, the ranges together are exactly \<open>[0, L)\<close>, and the
  empty text gives no chunk.
\<close>

theorem chunking_count_and_coverage:
  assumes "ov < S" and "is_chunking ntext S ov cs"
  shows "is_chunking ntext S ov (chunk ntext S ov)
       \<and> \<lceil>(real (length ntext) - real ov) / (real S - real ov)\<rceil> \<le> int (length cs)
       \<and> (ov \<le> length ntext \<longrightarrow>
            int (length cs) \<le> \<lceil>(real (length ntext) - real ov) / (real S - real ov)\<rceil> + 1)
       \<and> (ntext \<noteq> [] \<longrightarrow>
            cs \<noteq> []
            \<and> span_text (last cs) \<noteq> []
            \<and> length (span_text (last cs)) \<le> S
            \<and> end_offset (last cs) = length ntext)
       \<and> (\<forall>c \<in> set cs.
            span_text c = take (end_offset c - start_offset c) (drop (start_offset c) ntext))
       \<and> (\<Union>c \<in> set cs. chunk_range c) = {0 ..< length ntext}
       \<and> (ntext = [] \<longrightarrow> cs = [])"
proof -
  let ?L = "length ntext"
  have own: "is_chunking ntext S ov (chunk ntext S ov)"
    using assms(1) by (rule chunk_is_chunking)
  have empty: "ntext = [] \<longrightarrow> cs = []"
    using assms(2) by (simp add: is_chunking_def)
  show ?thesis
  proof (cases "ntext = []")
    case True
    with assms(2) have cs: "cs = []" by (simp add: is_chunking_def)
    have "(real ?L - real ov) / (real S - real ov) \<le> 0"
      using True assms(1) by (simp add: divide_le_0_iff)
    then have lo: "\<lceil>(real ?L - real ov) / (real S - real ov)\<rceil> \<le> 0"
      by (simp only: ceiling_le_zero)
    have up: "ov \<le> ?L \<longrightarrow> 0 \<le> \<lceil>(real ?L - real ov) / (real S - real ov)\<rceil> + 1"
      using True by simp
    from own lo up cs True show ?thesis by simp
  next
    case False
    with assms(2) have w: "windows_from ntext S ov 0 cs" by (simp add: is_chunking_def)
    then have ne: "cs \<noteq> []" by (rule windows_from_nonempty)
    then have npos: "0 < length cs" by simp
    from windows_from_last [OF w] have
      l1: "last cs = window ntext S ov (length cs - 1)" and
      l2: "(length cs - 1) * (S - ov) < ?L" and
      l3: "?L \<le> (length cs - 1) * (S - ov) + S" by simp_all
    have full: "2 \<le> length cs \<longrightarrow> (length cs - 2) * (S - ov) + S \<le> ?L"
      using windows_from_full [OF w] by simp
    have lo: "\<lceil>(real ?L - real ov) / (real S - real ov)\<rceil> \<le> int (length cs)"
      using assms(1) l3 npos by (rule count_lower)
    have up: "ov \<le> ?L \<longrightarrow>
        int (length cs) \<le> \<lceil>(real ?L - real ov) / (real S - real ov)\<rceil> + 1"
      using count_upper [OF assms(1) _ full] by blast
    have lastp: "span_text (last cs) \<noteq> [] \<and> length (span_text (last cs)) \<le> S
                 \<and> end_offset (last cs) = ?L"
      using l2 l3 by (simp add: l1 window_def min_def)
    have texts: "\<forall>c \<in> set cs.
        span_text c = take (end_offset c - start_offset c) (drop (start_offset c) ntext)"
      using w windows_from_texts by blast
    have un: "(\<Union>c \<in> set cs. chunk_range c) = {0 ..< ?L}"
      using windows_from_union [OF assms(1) w] by simp
    from own lo up ne lastp texts un False show ?thesis by blast
  qed
qed

theorem chunking_count_and_coverage_witness:
  "(2::nat) < 5 \<and> is_chunking ''hello world!'' 5 2 (chunk ''hello world!'' 5 2)
   \<and> 2 \<le> length ''hello world!'' \<and> ''hello world!'' \<noteq> []
   \<and> map span_text (chunk ''hello world!'' 5 2) = [''hello'', ''lo wo'', ''world'', ''ld!'']
   \<and> int (length (chunk ''hello world!'' 5 2)) = 4
   \<and> \<lceil>(real (length ''hello world!'') - real (2::nat)) / (real (5::nat) - real (2::nat))\<rceil> = 4
   \<and> end_offset (last (chunk ''hello world!'' 5 2)) = length ''hello world!''
   \<and> (\<Union>c \<in> set (chunk ''hello world!'' 5 2). chunk_range c)
       = {0 ..< length ''hello world!''}"
proof -
  have h: "(2::nat) < 5" by simp
  have ev: "map span_text (chunk ''hello world!'' 5 2) = [''hello'', ''lo wo'', ''world'', ''ld!'']"
    by (simp add: chunk_def chunk_from.simps window_def)
  have ic: "is_chunking ''hello world!'' 5 2 (chunk ''hello world!'' 5 2)"
    by (simp add: is_chunking_def chunk_def chunk_from.simps)
  have c: "\<lceil>(real (length ''hello world!'') - real (2::nat)) / (real (5::nat) - real (2::nat))\<rceil> = 4"
    by simp
  have len: "length (chunk ''hello world!'' 5 2) = 4"
    by (simp add: chunk_def chunk_from.simps)
  from chunking_count_and_coverage [OF h ic] ev c ic len show ?thesis
    by simp
qed

subsection \<open>Order of the results\<close>

lemma insert_by_set: "set (insert_by cmp x ys) = insert x (set ys)"
  by (induction ys) auto

lemma insert_by_sorted:
  assumes tr: "transp R"
    and ord: "\<forall>a b. (cmp a b > 0 \<longrightarrow> R b a) \<and> (\<not> cmp a b > 0 \<longrightarrow> R a b)"
  shows "sorted_wrt R ys \<Longrightarrow> sorted_wrt R (insert_by cmp x ys)"
proof (induction ys)
  case Nil
  then show ?case by simp
next
  case (Cons y ys)
  show ?case
  proof (cases "cmp y x > 0")
    case True
    then have xy: "R x y" using ord by blast
    have "\<forall>z \<in> set ys. R x z" using Cons.prems xy tr by (auto dest: transpD)
    with True xy Cons.prems show ?thesis by simp
  next
    case False
    then have yx: "R y x" using ord by blast
    with False Cons show ?thesis by (auto simp: insert_by_set)
  qed
qed

lemma array_sort_sorted:
  assumes tr: "transp R"
    and ord: "\<forall>a b. (cmp a b > 0 \<longrightarrow> R b a) \<and> (\<not> cmp a b > 0 \<longrightarrow> R a b)"
  shows "sorted_wrt R (array_sort cmp xs)"
proof -
  have "sorted_wrt R acc \<Longrightarrow> sorted_wrt R (foldl (\<lambda>acc x. insert_by cmp x acc) acc xs)"
    for acc
  proof (induction xs arbitrary: acc)
    case Nil
    then show ?case by simp
  next
    case (Cons x xs)
    have "sorted_wrt R (insert_by cmp x acc)"
      using tr ord Cons.prems by (rule insert_by_sorted)
    from Cons.IH [OF this] show ?case by simp
  qed
  from this [of "[]"] show ?thesis by (simp add: array_sort_def)
qed

lemma array_sort_set: "set (array_sort cmp xs) = set xs"
proof -
  have "set (foldl (\<lambda>acc x. insert_by cmp x acc) acc xs) = set acc \<union> set xs" for acc
    by (induction xs arbitrary: acc) (auto simp: insert_by_set)
  from this [of "[]"] show ?thesis by (simp add: array_sort_def)
qed

lemma array_sort_length: "length (array_sort cmp xs) = length xs"
proof -
  have ins: "length (insert_by cmp x ys) = Suc (length ys)" for x ys
    by (induction ys) auto
  have "length (foldl (\<lambda>acc x. insert_by cmp x acc) acc xs) = length acc + length xs" for acc
    by (induction xs arbitrary: acc) (auto simp: ins)
  from this [of "[]"] show ?thesis by (simp add: array_sort_def)
qed

lemma sortedResults_by_similarity:
  assumes "sb \<noteq> ''date''" "sb \<noteq> ''title''" "so \<noteq> ''asc''"
  shows "sorted_wrt (\<lambda>a b. similarity a \<ge> similarity b)
           (sortedResults parse sb so rs)"
  unfolding sortedResults_def
proof (rule array_sort_sorted)
  show "transp (\<lambda>a b. similarity b \<le> similarity a)"
    by (rule transpI) simp
next
  show "\<forall>a b. (0 < compareResults parse sb so a b \<longrightarrow> similarity a \<le> similarity b)
      \<and> (\<not> 0 < compareResults parse sb so a b \<longrightarrow> similarity b \<le> similarity a)"
    using assms by (simp add: compareResults_def sort_values_def similarity_def)
qed

lemma retrieve_sorted:
  assumes "retrieve embedder index_query extra uid q k floor_sim doc = Inr items"
  shows "sorted_wrt (\<lambda>a b. similarity a \<ge> similarity b) items"
proof -
  from assms obtain kept where items: "items = take k (sort_key (\<lambda>r. - similarity r) kept)"
    by (auto simp: retrieve_def Let_def split: option.splits)
  have "sorted (map (\<lambda>r. - similarity r) (sort_key (\<lambda>r. - similarity r) kept))"
    by (rule sorted_sort_key)
  then have "sorted_wrt (\<lambda>a b. similarity a \<ge> similarity b) (sort_key (\<lambda>r. - similarity r) kept)"
    by (simp add: sorted_map)
  then show ?thesis unfolding items by (rule sorted_wrt_take)
qed

text \<open>
  C1. The Search page displays \<open>sortedResults\<close>; in its default sort state
  (\<open>sortBy = 'similarity'\<close>, \<open>sortOrder = 'desc'\<close>) an item placed before another has
  a similarity that is at least the other's, a missing score counting as 0, and the
  displayed items are the results the page holds. Every list that \<open>retrieve\<close> returns
  is ordered in the same way.
\<close>

theorem results_in_descending_similarity:
  "sortBy search_initial = ''similarity'' \<and> sortOrder search_initial = ''desc''
   \<and> sorted_wrt (\<lambda>a b. similarity a \<ge> similarity b)
        (sortedResults parse ''similarity'' ''desc'' rs)
   \<and> set (sortedResults parse ''similarity'' ''desc'' rs) = set rs
   \<and> length (sortedResults parse ''similarity'' ''desc'' rs) = length rs
   \<and> (retrieve embedder index_query extra uid q k floor_sim doc = Inr items
        \<longrightarrow> sorted_wrt (\<lambda>a b. similarity a \<ge> similarity b) items)"
proof -
  have "sorted_wrt (\<lambda>a b. similarity a \<ge> similarity b)
          (sortedResults parse ''similarity'' ''desc'' rs)"
    by (rule sortedResults_by_similarity) simp_all
  moreover have "set (sortedResults parse ''similarity'' ''desc'' rs) = set rs"
    by (simp add: sortedResults_def array_sort_set)
  moreover have "length (sortedResults parse ''similarity'' ''desc'' rs) = length rs"
    by (simp add: sortedResults_def array_sort_length)
  ultimately show ?thesis
    using retrieve_sorted [of embedder index_query extra uid q k floor_sim doc items]
    by (simp add: search_initial_def)
qed

theorem results_in_descending_similarity_witness:
  "retrieve (\<lambda>_. Some [1]) 
     (\<lambda>_ _ _ _. [\<lparr>hit_id = ''c1'', hit_distance = 3, hit_metadata = scored_item ''a'' None\<rparr>,
                  \<lparr>hit_id = ''c2'', hit_distance = 0, hit_metadata = scored_item ''b'' None\<rparr>,
                  \<lparr>hit_id = ''c3'', hit_distance = 1, hit_metadata = scored_item ''c'' None\<rparr>])
     3 ''u1'' ''what'' 2 (3 / 10) None
   = Inr [scored_item ''b'' (Some 1), scored_item ''c'' (Some (1 / 2))]
   \<and> sorted_wrt (\<lambda>a b. similarity a \<ge> similarity b)
        [scored_item ''b'' (Some 1), scored_item ''c'' (Some (1 / 2))]
   \<and> map similarity
        (sortedResults (\<lambda>_. None) ''similarity'' ''desc''
           [scored_item ''a'' (Some (1 / 2)), scored_item ''b'' None,
            scored_item ''c'' (Some (9 / 10))])
     = [9 / 10, 1 / 2, 0]
   \<and> sorted_wrt (\<lambda>a b. similarity a \<ge> similarity b)
        (sortedResults (\<lambda>_. None) ''similarity'' ''desc''
           [scored_item ''a'' (Some (1 / 2)), scored_item ''b'' None,
            scored_item ''c'' (Some (9 / 10))])"
proof -
  have r: "retrieve (\<lambda>_. Some [1]) 
     (\<lambda>_ _ _ _. [\<lparr>hit_id = ''c1'', hit_distance = 3, hit_metadata = scored_item ''a'' None\<rparr>,
                  \<lparr>hit_id = ''c2'', hit_distance = 0, hit_metadata = scored_item ''b'' None\<rparr>,
                  \<lparr>hit_id = ''c3'', hit_distance = 1, hit_metadata = scored_item ''c'' None\<rparr>])
     3 ''u1'' ''what'' 2 (3 / 10) None
   = Inr [scored_item ''b'' (Some 1), scored_item ''c'' (Some (1 / 2))]"
    by (simp add: retrieve_def to_result_item_def distance_to_similarity_def similarity_def
        num_or_def scored_item_def)
  have e: "map similarity
        (sortedResults (\<lambda>_. None) ''similarity'' ''desc''
           [scored_item ''a'' (Some (1 / 2)), scored_item ''b'' None,
            scored_item ''c'' (Some (9 / 10))])
     = [9 / 10, 1 / 2, 0]"
    by (simp add: sortedResults_def array_sort_def compareResults_def sort_values_def
        similarity_def num_or_def scored_item_def)
  from results_in_descending_similarity
         [of "\<lambda>_. None" "[scored_item ''a'' (Some (1 / 2)), scored_item ''b'' None,
            scored_item ''c'' (Some (9 / 10))]" "\<lambda>_. Some [1]" _ 3 "''u1''" "''what''" 2 "3 / 10"
            None "[scored_item ''b'' (Some 1), scored_item ''c'' (Some (1 / 2))]"] r e
  show ?thesis by simp
qed

subsection \<open>Requests issued by the client\<close>

lemma askQuestion_request:
  "fst (askQuestion api_post q d) = \<lparr>post_url = ''/qa/ask'', post_body = ask_payload q d\<rparr>"
  by (simp add: askQuestion_def Let_def split: response.splits)

lemma ask_payload_fields:
  "map_of (ask_payload q d) ''question'' = Some (JString q)
   \<and> (has_field (ask_payload q d) ''document_id'' \<longleftrightarrow> (\<exists>x. d = Some x \<and> x \<noteq> []))
   \<and> \<not> has_field (ask_payload q d) ''max_chunks''
   \<and> \<not> has_field (ask_payload q d) ''similarity_threshold''
   \<and> fst ` set (ask_payload q d) \<subseteq> {''question'', ''document_id''}"
  by (auto simp: ask_payload_def has_field_def split: option.splits)

lemma handleSubmit_requests:
  "trim (question s) \<noteq> [] \<Longrightarrow>
   fst (snd (handleSubmit api_post clk s))
   = [\<lparr>post_url = ''/qa/ask'',
       post_body = ask_payload (question s)
                     (if selectedDocument s = [] then None else Some (selectedDocument s))\<rparr>]"
  by (simp add: handleSubmit_def askQuestion_def Let_def split: response.splits)

lemma handleSubmit_blank:
  "trim (question s) = [] \<Longrightarrow> handleSubmit api_post clk s = (s, [], [''Please enter a question''])"
  by (simp add: handleSubmit_def)

text \<open>
  C3, as stated, fails: the ask payload never has a \<open>max_chunks\<close> or a
  \<open>similarity_threshold\<close> field. A question submitted with no document selected is
  sent as the single field \<open>question\<close>, which is not the declared parameter list.
\<close>

theorem ask_payload_counterexample:
  "trim ''What is RAG?'' \<noteq> []
   \<and> fst (snd (handleSubmit (\<lambda>_. Rejected None)
                 \<lparr>t_user = 1000, iso_user = ''t1'', t_reply = 2000, iso_reply = ''t2''\<rparr>
                 \<lparr>question = ''What is RAG?'', selectedDocument = [],
                  chatHistory = [], loading = False\<rparr>))
     = [\<lparr>post_url = ''/qa/ask'', post_body = [(''question'', JString ''What is RAG?'')]\<rparr>]
   \<and> \<not> declared_ask_parameters [(''question'', JString ''What is RAG?'')] ''What is RAG?'' False"
proof -
  have h: "trim ''What is RAG?'' \<noteq> []"
    by (simp add: trim_def is_space_def)
  then show ?thesis
    by (simp add: handleSubmit_requests ask_payload_def declared_ask_parameters_def
        has_field_def)
qed

text \<open>
  C3, amended. Every question submitted from the QA page (one that is not blank)
  issues exactly one request, to \<open>/qa/ask\<close>, whose payload holds the question text
  under \<open>question\<close> and a \<open>document_id\<close> field exactly when a document is
  selected, with the selected identifier as its value; the payload has no
  \<open>max_chunks\<close> and no \<open>similarity_threshold\<close> field.
\<close>

theorem ask_request_payload:
  assumes "trim (question s) \<noteq> []"
  shows "\<exists>body. fst (snd (handleSubmit api_post clk s)) = [\<lparr>post_url = ''/qa/ask'', post_body = body\<rparr>]
          \<and> body = ask_payload (question s)
                     (if selectedDocument s = [] then None else Some (selectedDocument s))
          \<and> map_of body ''question'' = Some (JString (question s))
          \<and> (has_field body ''document_id'' \<longleftrightarrow> selectedDocument s \<noteq> [])
          \<and> (selectedDocument s \<noteq> [] \<longrightarrow>
                map_of body ''document_id'' = Some (JString (selectedDocument s)))
          \<and> \<not> has_field body ''max_chunks''
          \<and> \<not> has_field body ''similarity_threshold''"
  using handleSubmit_requests [OF assms, of api_post clk]
    ask_payload_fields [of "question s" "if selectedDocument s = [] then None else Some (selectedDocument s)"]
  by (auto simp: ask_payload_def)


theorem ask_request_payload_witness:
  "trim ''What is RAG?'' \<noteq> []
   \<and> fst (snd (handleSubmit (\<lambda>_. Rejected None)
                 \<lparr>t_user = 1000, iso_user = ''t1'', t_reply = 2000, iso_reply = ''t2''\<rparr>
                 \<lparr>question = ''What is RAG?'', selectedDocument = ''doc-7'',
                  chatHistory = [], loading = False\<rparr>))
     = [\<lparr>post_url = ''/qa/ask'',
         post_body = [(''question'', JString ''What is RAG?''),
                      (''document_id'', JString ''doc-7'')]\<rparr>]"
proof -
  have h: "trim (question \<lparr>question = ''What is RAG?'', selectedDocument = ''doc-7'',
                  chatHistory = [], loading = False\<rparr>) \<noteq> []"
    by (simp add: trim_def is_space_def)
  from ask_request_payload [OF h, of "\<lambda>_. Rejected None"
      "\<lparr>t_user = 1000, iso_user = ''t1'', t_reply = 2000, iso_reply = ''t2''\<rparr>"] h
  show ?thesis by (auto simp: ask_payload_def)
qed

lemma search_payload_fields:
  "map_of (search_payload q n) ''query'' = Some (JString q)
   \<and> \<not> has_field (search_payload q n) ''similarity_threshold''"
  by (simp add: search_payload_def has_field_def)

lemma handleSearch_requests:
  "trim (query s) \<noteq> [] \<Longrightarrow>
   snd (handleSearch api_post s)
   = [\<lparr>post_url = ''/search'', post_body = search_payload (trim (query s)) (Some 20)\<rparr>]"
  by (simp add: handleSearch_def searchDocuments_def Let_def split: response.splits)

text \<open>
  C4, as stated, fails: no search request carries a \<open>similarity_threshold\<close>. The
  query \<open>vector search\<close> submitted from the Search page issues one request, and the
  payload that \<open>searchDocuments\<close> builds for it has no such field, so it does not
  carry the parameters of the declared interface.
\<close>

theorem search_payload_counterexample:
  "snd (handleSearch (\<lambda>_. Resolved None) (search_initial\<lparr>query := ''vector search''\<rparr>))
     = [\<lparr>post_url = ''/search'', post_body = search_payload ''vector search'' (Some 20)\<rparr>]
   \<and> \<not> has_field (search_payload ''vector search'' (Some 20)) ''similarity_threshold''
   \<and> \<not> declared_search_parameters (search_payload ''vector search'' (Some 20))
          ''vector search'' 20"
proof -
  have t: "trim ''vector search'' = ''vector search''"
    by (simp add: trim_def is_space_def)
  then show ?thesis
    by (simp add: handleSearch_requests search_payload_fields declared_search_parameters_def)
qed

text \<open>
  C4, amended. Every query submitted from the Search page (one that is not blank)
  issues exactly one request, to \<open>/search\<close>, whose payload holds the query string,
  trimmed, under \<open>query\<close>; the payload has no \<open>similarity_threshold\<close> field.
\<close>

theorem search_request_payload:
  assumes "trim (query s) \<noteq> []"
  shows "\<exists>body. snd (handleSearch api_post s) = [\<lparr>post_url = ''/search'', post_body = body\<rparr>]
          \<and> map_of body ''query'' = Some (JString (trim (query s)))
          \<and> \<not> has_field body ''similarity_threshold''"
  using handleSearch_requests [OF assms, of api_post]
    search_payload_fields [of "trim (query s)" "Some 20"]
  by simp

theorem search_request_payload_witness:
  "trim (CHR 0xA0 # '' vector search '') = ''vector search''
   \<and> length (snd (handleSearch (\<lambda>_. Resolved None)
                (search_initial\<lparr>query := CHR 0xA0 # '' vector search ''\<rparr>))) = 1
   \<and> post_url (hd (snd (handleSearch (\<lambda>_. Resolved None)
                (search_initial\<lparr>query := CHR 0xA0 # '' vector search ''\<rparr>)))) = ''/search''
   \<and> map_of (post_body (hd (snd (handleSearch (\<lambda>_. Resolved None)
                (search_initial\<lparr>query := CHR 0xA0 # '' vector search ''\<rparr>)))))
        ''query'' = Some (JString ''vector search'')
   \<and> \<not> has_field (post_body (hd (snd (handleSearch (\<lambda>_. Resolved None)
                (search_initial\<lparr>query := CHR 0xA0 # '' vector search ''\<rparr>)))))
          ''similarity_threshold''"
proof -
  have t: "trim (CHR 0xA0 # '' vector search '') = ''vector search''"
    by (simp add: trim_def is_space_def)
  then have h: "trim (query (search_initial\<lparr>query := CHR 0xA0 # '' vector search ''\<rparr>)) \<noteq> []"
    by simp
  from search_request_payload [OF h, of "\<lambda>_. Resolved None"] t
  show ?thesis by auto
qed

subsection \<open>Chat history of the QA page\<close>

lemma str_or_nonempty: "d \<noteq> [] \<Longrightarrow> str_or v d \<noteq> []"
  by (simp add: str_or_def split: option.splits)

lemma str_or_Some: "x \<noteq> [] \<Longrightarrow> str_or (Some x) d = x"
  by (simp add: str_or_def)

lemma askQuestion_failure:
  assumes "askQuestion api_post q d = (req, r, toasts)" "\<not> success r"
  shows "\<exists>err. r = AskFailure err \<and> err \<noteq> [] \<and> toasts = [err]"
proof (cases "api_post \<lparr>post_url = ''/qa/ask'', post_body = ask_payload q d\<rparr>")
  case (Resolved data)
  with assms show ?thesis by (auto simp: askQuestion_def success_def)
next
  case (Rejected detail)
  with assms have "r = AskFailure (str_or detail ''Failed to get answer'')"
    and "toasts = [str_or detail ''Failed to get answer'']"
    by (auto simp: askQuestion_def Let_def)
  moreover have "str_or detail ''Failed to get answer'' \<noteq> []"
    by (rule str_or_nonempty) simp
  ultimately show ?thesis by simp
qed

text \<open>
  C5. When the ask request of a submitted question fails (\<open>askQuestion\<close> returns
  \<open>success = false\<close>), the failure carries a non-empty error message, and the chat
  history receives the user's question followed by exactly one entry of type
  \<open>error\<close> whose content is that message; no entry of type \<open>ai\<close> is added. The
  same message is raised as a toast.
\<close>

theorem failed_ask_adds_one_error_entry:
  assumes "trim (question s) \<noteq> []"
    and "askQuestion api_post (question s)
           (if selectedDocument s = [] then None else Some (selectedDocument s))
         = (req, r, toasts)"
    and "\<not> success r"
  shows "\<exists>err u e. r = AskFailure err \<and> err \<noteq> []
          \<and> handleSubmit api_post clk s
              = (s\<lparr>question := [], chatHistory := chatHistory s @ [u, e], loading := False\<rparr>,
                 [req], [err])
          \<and> msg_type u = ''user'' \<and> content u = question s
          \<and> msg_type e = ''error'' \<and> content e = err
          \<and> filter (\<lambda>m. msg_type m = ''error'') [u, e] = [e]
          \<and> filter (\<lambda>m. msg_type m = ''ai'') [u, e] = []"
proof -
  from askQuestion_failure [OF assms(2,3)] obtain err
    where r: "r = AskFailure err" and ne: "err \<noteq> []" and t: "toasts = [err]" by blast
  define u where "u = \<lparr>msg_id = t_user clk, msg_type = ''user'', content = question s,
                        msg_sources = None, msg_confidence = None, timestamp = iso_user clk\<rparr>"
  define e where "e = \<lparr>msg_id = t_reply clk + 1, msg_type = ''error'', content = err,
                        msg_sources = None, msg_confidence = None, timestamp = iso_reply clk\<rparr>"
  have "handleSubmit api_post clk s
        = (s\<lparr>question := [], chatHistory := chatHistory s @ [u, e], loading := False\<rparr>,
           [req], [err])"
    using assms(1,2) r t ne
    by (simp add: handleSubmit_def Let_def u_def e_def str_or_Some)
  moreover have "msg_type u = ''user''" "content u = question s"
    "msg_type e = ''error''" "content e = err"
    by (simp_all add: u_def e_def)
  ultimately show ?thesis using r ne by (intro exI [of _ err] exI [of _ u] exI [of _ e]) simp
qed

theorem failed_ask_adds_one_error_entry_witness:
  "trim ''What is RAG?'' \<noteq> []
   \<and> askQuestion (\<lambda>_. Rejected (Some ''Embedding provider unavailable'')) ''What is RAG?'' None
      = (\<lparr>post_url = ''/qa/ask'', post_body = [(''question'', JString ''What is RAG?'')]\<rparr>,
         AskFailure ''Embedding provider unavailable'', [''Embedding provider unavailable''])
   \<and> \<not> success (AskFailure ''Embedding provider unavailable'')
   \<and> map (\<lambda>m. (msg_type m, content m))
        (chatHistory (fst (handleSubmit (\<lambda>_. Rejected (Some ''Embedding provider unavailable''))
           \<lparr>t_user = 1000, iso_user = ''t1'', t_reply = 2000, iso_reply = ''t2''\<rparr>
           \<lparr>question = ''What is RAG?'', selectedDocument = [], chatHistory = [],
            loading = False\<rparr>)))
      = [(''user'', ''What is RAG?''), (''error'', ''Embedding provider unavailable'')]"
proof -
  let ?s = "\<lparr>question = ''What is RAG?'', selectedDocument = [], chatHistory = [],
            loading = False\<rparr>"
  let ?api = "\<lambda>_::http_post. (Rejected (Some ''Embedding provider unavailable'') :: ask_data response)"
  have h1: "trim (question ?s) \<noteq> []" by (simp add: trim_def is_space_def)
  have h2: "askQuestion ?api (question ?s)
              (if selectedDocument ?s = [] then None else Some (selectedDocument ?s))
            = (\<lparr>post_url = ''/qa/ask'', post_body = [(''question'', JString ''What is RAG?'')]\<rparr>,
               AskFailure ''Embedding provider unavailable'', [''Embedding provider unavailable''])"
    by (simp add: askQuestion_def ask_payload_def str_or_def Let_def)
  have h3: "\<not> success (AskFailure ''Embedding provider unavailable'')"
    by (simp add: success_def)
  from failed_ask_adds_one_error_entry [OF h1 h2 h3,
      of "\<lparr>t_user = 1000, iso_user = ''t1'', t_reply = 2000, iso_reply = ''t2''\<rparr>"]
  obtain err u e where
    "AskFailure ''Embedding provider unavailable'' = AskFailure err"
    "chatHistory (fst (handleSubmit ?api
        \<lparr>t_user = 1000, iso_user = ''t1'', t_reply = 2000, iso_reply = ''t2''\<rparr> ?s)) = [u, e]"
    "msg_type u = ''user''" "content u = ''What is RAG?''"
    "msg_type e = ''error''" "content e = err"
    by auto
  with h1 h2 h3 show ?thesis by simp
qed

lemma handleSubmit_success:
  assumes "trim (question s) \<noteq> []"
    and "api_post \<lparr>post_url = ''/qa/ask'',
                   post_body = ask_payload (question s)
                     (if selectedDocument s = [] then None else Some (selectedDocument s))\<rparr>
         = Resolved data"
  shows "fst (handleSubmit api_post clk s)
         = s\<lparr>question := [],
              chatHistory := chatHistory s @
                [\<lparr>msg_id = t_user clk, msg_type = ''user'', content = question s,
                  msg_sources = None, msg_confidence = None, timestamp = iso_user clk\<rparr>,
                 \<lparr>msg_id = t_reply clk + 1, msg_type = ''ai'', content = answer data,
                  msg_sources = Some (case sources data of None \<Rightarrow> [] | Some xs \<Rightarrow> xs),
                  msg_confidence = (case confidence data of None \<Rightarrow> None
                                    | Some c \<Rightarrow> if c = 0 then None else Some c),
                  timestamp = iso_reply clk\<rparr>],
              loading := False\<rparr>"
  using assms by (simp add: handleSubmit_def askQuestion_def Let_def)

text \<open>
  C9. When a submitted question succeeds with a confidence of exactly 0, the \<open>ai\<close>
  message stored in the chat history has no confidence (\<open>0 || null\<close> is \<open>null\<close>),
  the page renders no confidence badge for it, and the resulting state is the one that
  a response without any confidence would have produced.
\<close>

theorem zero_confidence_shown_as_absent:
  assumes "trim (question s) \<noteq> []"
    and "api_post \<lparr>post_url = ''/qa/ask'',
                   post_body = ask_payload (question s)
                     (if selectedDocument s = [] then None else Some (selectedDocument s))\<rparr>
         = Resolved data"
    and "confidence data = Some 0"
  shows "\<exists>u m. chatHistory (fst (handleSubmit api_post clk s)) = chatHistory s @ [u, m]
          \<and> msg_type m = ''ai''
          \<and> msg_confidence m = None
          \<and> view_confidence (render_message m) = NoBadge
          \<and> fst (handleSubmit api_post clk s)
              = fst (handleSubmit (\<lambda>_. Resolved (data\<lparr>confidence := None\<rparr>)) clk s)"
proof -
  have a: "(\<lambda>_. Resolved (data\<lparr>confidence := None\<rparr>))
             \<lparr>post_url = ''/qa/ask'',
              post_body = ask_payload (question s)
                (if selectedDocument s = [] then None else Some (selectedDocument s))\<rparr>
           = Resolved (data\<lparr>confidence := None\<rparr>)" by simp
  note s1 = handleSubmit_success [where api_post = api_post and clk = clk, OF assms(1,2)]
  note s2 = handleSubmit_success
    [where api_post = "\<lambda>_. Resolved (data\<lparr>confidence := None\<rparr>)" and clk = clk, OF assms(1) a]
  show ?thesis
    unfolding s1 s2 using assms(3)
    by (simp add: render_message_def render_confidence_def)
qed

theorem zero_confidence_shown_as_absent_witness:
  "trim ''What is RAG?'' \<noteq> []
   \<and> map (\<lambda>m. (msg_type m, msg_confidence m, view_confidence (render_message m)))
        (chatHistory (fst (handleSubmit
           (\<lambda>_. Resolved \<lparr>answer = ''No relevant documents found.'', sources = Some [],
                            confidence = Some 0\<rparr>)
           \<lparr>t_user = 1000, iso_user = ''t1'', t_reply = 2000, iso_reply = ''t2''\<rparr>
           \<lparr>question = ''What is RAG?'', selectedDocument = [], chatHistory = [],
            loading = False\<rparr>)))
      = [(''user'', None, NoBadge), (''ai'', None, NoBadge)]"
proof -
  let ?s = "\<lparr>question = ''What is RAG?'', selectedDocument = [], chatHistory = [],
            loading = False\<rparr>"
  let ?d = "\<lparr>answer = ''No relevant documents found.'', sources = Some [],
             confidence = Some (0::real)\<rparr>"
  let ?api = "\<lambda>_::http_post. Resolved ?d"
  have h1: "trim (question ?s) \<noteq> []" by (simp add: trim_def is_space_def)
  have h2: "?api \<lparr>post_url = ''/qa/ask'',
                   post_body = ask_payload (question ?s)
                     (if selectedDocument ?s = [] then None else Some (selectedDocument ?s))\<rparr>
            = Resolved ?d" by simp
  have h3: "confidence ?d = Some 0" by simp
  from zero_confidence_shown_as_absent [where api_post = ?api
      and clk = "\<lparr>t_user = 1000, iso_user = ''t1'', t_reply = 2000, iso_reply = ''t2''\<rparr>",
      OF h1 h2 h3]
  obtain u m where
    "chatHistory (fst (handleSubmit ?api
        \<lparr>t_user = 1000, iso_user = ''t1'', t_reply = 2000, iso_reply = ''t2''\<rparr> ?s)) = [u, m]"
    "msg_type m = ''ai''" "msg_confidence m = None" "view_confidence (render_message m) = NoBadge"
    by auto
  moreover have "msg_type (hd (chatHistory (fst (handleSubmit ?api
        \<lparr>t_user = 1000, iso_user = ''t1'', t_reply = 2000, iso_reply = ''t2''\<rparr> ?s)))) = ''user''"
    "msg_confidence (hd (chatHistory (fst (handleSubmit ?api
        \<lparr>t_user = 1000, iso_user = ''t1'', t_reply = 2000, iso_reply = ''t2''\<rparr> ?s)))) = None"
    using h1 handleSubmit_success [where api_post = ?api and s = ?s and data = ?d
      and clk = "\<lparr>t_user = 1000, iso_user = ''t1'', t_reply = 2000, iso_reply = ''t2''\<rparr>"]
    by simp_all
  ultimately show ?thesis using h1 by (simp add: render_message_def)
qed

lemma render_source_fields:
  "shown_title (render_source src) = title src
   \<and> (\<forall>t. chunk_text src = Some t \<and> t \<noteq> [] \<longrightarrow>
          shown_excerpt (render_source src) = Some (take 100 t @ ''...'')
          \<and> prefix (take 100 t) t \<and> length (take 100 t) = min 100 (length t))
   \<and> (chunk_text src = None \<or> chunk_text src = Some [] \<longrightarrow>
          shown_excerpt (render_source src) = None)
   \<and> (\<forall>other. title other = title src \<and> chunk_text other = chunk_text src \<longrightarrow>
          render_source other = render_source src)"
  by (auto simp: render_source_def take_is_prefix min_def)

text \<open>
  C7. For every successful answer the \<open>ai\<close> message renders one citation per
  source of the answer, in order, and each citation is computed from the source item
  alone: it shows the item's \<open>title\<close> and, when the item has a non-empty
  \<open>chunk_text\<close>, an excerpt that is the first 100 characters of that text verbatim
  (the whole text when it is shorter) followed by an ellipsis. Two items with the same
  \<open>title\<close> and \<open>chunk_text\<close> render alike, so nothing else is looked up.
\<close>

theorem sources_rendered_from_item:
  assumes "trim (question s) \<noteq> []"
    and "api_post \<lparr>post_url = ''/qa/ask'',
                   post_body = ask_payload (question s)
                     (if selectedDocument s = [] then None else Some (selectedDocument s))\<rparr>
         = Resolved data"
  shows "\<exists>u m. chatHistory (fst (handleSubmit api_post clk s)) = chatHistory s @ [u, m]
          \<and> msg_type m = ''ai''
          \<and> view_sources (render_message m)
              = map render_source (case sources data of None \<Rightarrow> [] | Some xs \<Rightarrow> xs)
          \<and> (\<forall>src \<in> set (case sources data of None \<Rightarrow> [] | Some xs \<Rightarrow> xs).
                shown_title (render_source src) = title src
                \<and> (\<forall>t. chunk_text src = Some t \<and> t \<noteq> [] \<longrightarrow>
                      shown_excerpt (render_source src) = Some (take 100 t @ ''...'')
                      \<and> prefix (take 100 t) t \<and> length (take 100 t) = min 100 (length t))
                \<and> (chunk_text src = None \<or> chunk_text src = Some [] \<longrightarrow>
                      shown_excerpt (render_source src) = None)
                \<and> (\<forall>other. title other = title src \<and> chunk_text other = chunk_text src \<longrightarrow>
                      render_source other = render_source src))"
proof -
  define u where "u = \<lparr>msg_id = t_user clk, msg_type = ''user'', content = question s,
                        msg_sources = None, msg_confidence = None, timestamp = iso_user clk\<rparr>"
  define m where "m = \<lparr>msg_id = t_reply clk + 1, msg_type = ''ai'', content = answer data,
                  msg_sources = Some (case sources data of None \<Rightarrow> [] | Some xs \<Rightarrow> xs),
                  msg_confidence = (case confidence data of None \<Rightarrow> None
                                    | Some c \<Rightarrow> if c = 0 then None else Some c),
                  timestamp = iso_reply clk\<rparr>"
  have h: "chatHistory (fst (handleSubmit api_post clk s)) = chatHistory s @ [u, m]"
    using handleSubmit_success [where api_post = api_post and clk = clk, OF assms(1,2)]
    by (simp add: u_def m_def)
  have t: "msg_type m = ''ai''" by (simp add: m_def)
  have v: "view_sources (render_message m)
           = map render_source (case sources data of None \<Rightarrow> [] | Some xs \<Rightarrow> xs)"
    by (simp add: render_message_def render_sources_def m_def)
  show ?thesis
    by (rule exI [of _ u], rule exI [of _ m])
      (intro conjI ballI h t v render_source_fields [THEN conjunct1]
        render_source_fields [THEN conjunct2, THEN conjunct1]
        render_source_fields [THEN conjunct2, THEN conjunct2, THEN conjunct1]
        render_source_fields [THEN conjunct2, THEN conjunct2, THEN conjunct2])
qed

theorem sources_rendered_from_item_witness:
  "trim ''What is RAG?'' \<noteq> []
   \<and> map (\<lambda>m. (msg_type m, view_sources (render_message m)))
        (chatHistory (fst (handleSubmit
           (\<lambda>_. Resolved \<lparr>answer = ''Retrieval-augmented generation.'',
                 sources = Some [\<lparr>document_id = Some ''d1'', title = Some ''Intro to RAG'',
                                   document_title = None, document_type = None,
                                   created_at = None,
                                   chunk_text = Some ''RAG retrieves text, then generates.'',
                                   similarity_score = Some (9 / 10)\<rparr>,
                                 \<lparr>document_id = Some ''d2'', title = Some ''Glossary'',
                                   document_title = None, document_type = None,
                                   created_at = None, chunk_text = None,
                                   similarity_score = Some (1 / 2)\<rparr>],
                 confidence = Some (9 / 10)\<rparr>)
           \<lparr>t_user = 1000, iso_user = ''t1'', t_reply = 2000, iso_reply = ''t2''\<rparr>
           \<lparr>question = ''What is RAG?'', selectedDocument = [], chatHistory = [],
            loading = False\<rparr>)))
      = [(''user'', []),
         (''ai'', [\<lparr>shown_title = Some ''Intro to RAG'',
                    shown_excerpt = Some ''RAG retrieves text, then generates....''\<rparr>,
                  \<lparr>shown_title = Some ''Glossary'', shown_excerpt = None\<rparr>])]"
proof -
  let ?s = "\<lparr>question = ''What is RAG?'', selectedDocument = [], chatHistory = [],
            loading = False\<rparr>"
  let ?src = "\<lparr>document_id = Some ''d1'', title = Some ''Intro to RAG'',
                document_title = None, document_type = None, created_at = None,
                chunk_text = Some ''RAG retrieves text, then generates.'',
                similarity_score = Some (9 / 10 :: real)\<rparr>"
  let ?bare = "\<lparr>document_id = Some ''d2'', title = Some ''Glossary'',
                 document_title = None, document_type = None, created_at = None,
                 chunk_text = None, similarity_score = Some (1 / 2 :: real)\<rparr>"
  let ?d = "\<lparr>answer = ''Retrieval-augmented generation.'', sources = Some [?src, ?bare],
             confidence = Some (9 / 10 :: real)\<rparr>"
  let ?api = "\<lambda>_::http_post. Resolved ?d"
  let ?clk = "\<lparr>t_user = 1000, iso_user = ''t1'', t_reply = 2000, iso_reply = ''t2''\<rparr>"
  have h1: "trim (question ?s) \<noteq> []" by (simp add: trim_def is_space_def)
  have h2: "?api \<lparr>post_url = ''/qa/ask'',
                   post_body = ask_payload (question ?s)
                     (if selectedDocument ?s = [] then None else Some (selectedDocument ?s))\<rparr>
            = Resolved ?d" by simp
  from sources_rendered_from_item [where api_post = ?api and clk = ?clk, OF h1 h2]
  obtain u m where um:
    "chatHistory (fst (handleSubmit ?api ?clk ?s)) = [u, m]"
    "msg_type m = ''ai''"
    "view_sources (render_message m) = [render_source ?src, render_source ?bare]"
    by auto
  have u: "msg_type (hd (chatHistory (fst (handleSubmit ?api ?clk ?s)))) = ''user''"
    using h1 handleSubmit_success [where api_post = ?api and s = ?s and data = ?d and clk = ?clk]
    by simp
  have r: "render_source ?src = \<lparr>shown_title = Some ''Intro to RAG'',
                    shown_excerpt = Some ''RAG retrieves text, then generates....''\<rparr>"
    "render_source ?bare = \<lparr>shown_title = Some ''Glossary'', shown_excerpt = None\<rparr>"
    by (simp_all add: render_source_def)
  from um u r h1 show ?thesis by (simp add: render_message_def)
qed

subsection \<open>Upload validation\<close>

lemma lower_char_dot: "lower_char c = CHR ''.'' \<longleftrightarrow> c = CHR ''.''"
proof
  assume a: "lower_char c = CHR ''.''"
  show "c = CHR ''.''"
  proof (rule ccontr)
    assume n: "c \<noteq> CHR ''.''"
    with a have up: "(CHR ''A'' \<le> c \<and> c \<le> CHR ''Z'')
                     \<or> (CHR 0xC0 \<le> c \<and> c \<le> CHR 0xDE \<and> c \<noteq> CHR 0xD7)"
      and eq: "char_of (of_char c + (32::nat)) = CHR ''.''"
      by (auto simp: lower_char_def split: if_splits)
    from up have "(65::nat) \<le> of_char c" "of_char c \<le> (222::nat)"
      by (auto simp: less_eq_char_def)
    moreover from eq
    have "of_char (char_of (of_char c + (32::nat)) :: char) = (of_char CHR ''.'' :: nat)"
      by simp
    then have m: "(of_char c + 32) mod 256 = (46::nat)" by simp
    ultimately have "(of_char c + 32) mod 256 = (of_char c + 32 :: nat)"
      by (intro mod_less) simp
    with m \<open>(65::nat) \<le> of_char c\<close> show False by simp
  qed
next
  assume "c = CHR ''.''"
  then show "lower_char c = CHR ''.''" by (simp add: lower_char_def less_eq_char_def)
qed

lemma toLowerCase_extension:
  "map_option toLowerCase (file_extension name) = file_extension (toLowerCase name)"
proof -
  have s: "CHR ''.'' \<in> set (toLowerCase name) \<longleftrightarrow> CHR ''.'' \<in> set name"
  proof
    assume "CHR ''.'' \<in> set (toLowerCase name)"
    then obtain x where "x \<in> set name" "lower_char x = CHR ''.''"
      by (auto simp: toLowerCase_def)
    then show "CHR ''.'' \<in> set name" by (simp add: lower_char_dot)
  next
    assume "CHR ''.'' \<in> set name"
    moreover have "lower_char CHR ''.'' = CHR ''.''" by (simp add: lower_char_dot)
    ultimately show "CHR ''.'' \<in> set (toLowerCase name)"
      by (force simp: toLowerCase_def)
  qed
  have "(\<lambda>c. c \<noteq> CHR ''.'') \<circ> lower_char = (\<lambda>c. c \<noteq> CHR ''.'')"
    by (auto simp: fun_eq_iff lower_char_dot)
  then have "takeWhile (\<lambda>c. c \<noteq> CHR ''.'') (map lower_char (rev name))
        = map lower_char (takeWhile (\<lambda>c. c \<noteq> CHR ''.'') (rev name))"
    by (simp add: takeWhile_map)
  then show ?thesis
    using s by (simp add: file_extension_def toLowerCase_def rev_map)
qed

lemma endsWith_extension:
  assumes "endsWith s (CHR ''.'' # e)" "CHR ''.'' \<notin> set e"
  shows "file_extension s = Some e"
proof -
  from assms(1) obtain pre where s: "s = pre @ CHR ''.'' # e"
    by (metis append_take_drop_id endsWith_def)
  have "takeWhile (\<lambda>c. c \<noteq> CHR ''.'') (rev e @ CHR ''.'' # rev pre) = rev e"
  proof -
    have "takeWhile (\<lambda>c. c \<noteq> CHR ''.'') (rev e @ CHR ''.'' # rev pre)
          = takeWhile (\<lambda>c. c \<noteq> CHR ''.'') (rev e)"
      by (rule takeWhile_tail) simp
    also have "\<dots> = rev e"
      using assms(2) by (intro takeWhile_eq_all_conv [THEN iffD2]) auto
    finally show ?thesis .
  qed
  then show ?thesis by (simp add: file_extension_def s)
qed

text \<open>
  A file outside the allowlist, by MIME type and by extension, fails the test of
  attr-accept: a name that ends in one of the accepted extensions has that extension.
\<close>

lemma outside_allowlist_not_accepted:
  assumes "type_outside_allowlist f"
  shows "\<not> attr_accept f"
proof
  assume "attr_accept f"
  with assms obtain e where e: "e \<in> set allowlist"
    and ew: "endsWith (toLowerCase (file_name f)) (CHR ''.'' # e)"
    by (auto simp: attr_accept_def type_outside_allowlist_def accept_def allowlist_def)
  from e have nodot: "CHR ''.'' \<notin> set e" by (auto simp: allowlist_def)
  from endsWith_extension [OF ew nodot]
  have "map_option toLowerCase (file_extension (file_name f)) = Some e"
    by (simp add: toLowerCase_extension)
  then obtain x where "file_extension (file_name f) = Some x" "toLowerCase x = e"
    by auto
  with assms e show False by (simp add: type_outside_allowlist_def)
qed

lemma acceptedFiles_valid:
  "set (acceptedFiles table offered) = {g \<in> withMimeType table ` set offered. valid_upload g}"
  by (auto simp: acceptedFiles_def valid_upload_def)

lemma withMimeType_size: "file_size (withMimeType table f) = file_size f"
  by (simp add: withMimeType_def split: option.splits)

lemma onDrop_files:
  "fo_file ` set (uploadedFiles (onDrop random accepted s))
   = fo_file ` set (uploadedFiles s) \<union> set accepted"
proof -
  have "(\<lambda>k. accepted ! k) ` {0 ..< length accepted} = set accepted"
    by (auto simp: in_set_conv_nth)
  then show ?thesis
    by (simp add: onDrop_def Let_def image_Un image_image)
qed

lemma removeFile_files:
  "fo_file ` set (uploadedFiles (removeFile fileId s)) \<subseteq> fo_file ` set (uploadedFiles s)"
  by (auto simp: removeFile_def)

lemma handleInputChange_files:
  "uploadedFiles (handleInputChange name v s) = uploadedFiles s"
  by (simp add: handleInputChange_def)

lemma mark_uploaded_files: "map fo_file (mark_uploaded x ok current) = map fo_file current"
  by (induction current) (auto simp: mark_uploaded_def)

lemma uploadDocument_file: "up_file (fst (uploadDocument api_upload f ttl d)) = f"
  by (simp add: uploadDocument_def Let_def)

lemma upload_all_files:
  "map fo_file (fst (upload_all api_upload fd xs current)) = map fo_file current
   \<and> map up_file (snd (upload_all api_upload fd xs current)) = map fo_file xs"
  by (induction xs arbitrary: current)
     (simp_all add: Let_def mark_uploaded_files uploadDocument_file)

lemma handleSubmit_upload_files:
  assumes "handleSubmit_upload api_upload s = (s', reqs)"
  shows "fo_file ` set (uploadedFiles s') \<subseteq> fo_file ` set (uploadedFiles s)
       \<and> up_file ` set reqs \<subseteq> fo_file ` set (uploadedFiles s)"
proof (cases "uploadedFiles s = []")
  case True
  with assms show ?thesis by (simp add: handleSubmit_upload_def)
next
  case False
  obtain final rs where ua:
    "upload_all api_upload (formData s) (uploadedFiles s) (uploadedFiles s) = (final, rs)"
    by (cases "upload_all api_upload (formData s) (uploadedFiles s) (uploadedFiles s)") auto
  from upload_all_files [of api_upload "formData s" "uploadedFiles s" "uploadedFiles s"] ua
  have m1: "map fo_file final = map fo_file (uploadedFiles s)"
    and m2: "map up_file rs = map fo_file (uploadedFiles s)" by simp_all
  from m1 have s1: "fo_file ` set final = fo_file ` set (uploadedFiles s)"
    by (metis set_map)
  from m2 have s2: "up_file ` set rs = fo_file ` set (uploadedFiles s)"
    by (metis set_map)
  from assms False ua have "reqs = rs" and "uploadedFiles s' = [] \<or> uploadedFiles s' = final"
    by (auto simp: handleSubmit_upload_def Let_def split: if_splits)
  with s1 s2 show ?thesis by auto
qed

lemma upload_step_valid: "all_valid c \<Longrightarrow> all_valid (upload_step table c e)"
proof (cases c)
  case (Pair s sent)
  assume inv: "all_valid c"
  show ?thesis
  proof (cases e)
    case (Offer offered random)
    with Pair inv show ?thesis
      by (auto simp: all_valid_def onDrop_files acceptedFiles_valid simp del: image_iff)
  next
    case (Remove fileId)
    with Pair inv removeFile_files [of fileId s] show ?thesis
      by (auto simp: all_valid_def)
  next
    case (Edit name v)
    with Pair inv show ?thesis by (simp add: all_valid_def handleInputChange_files)
  next
    case (Submit api_upload)
    obtain s' reqs where hs: "handleSubmit_upload api_upload s = (s', reqs)"
      by (cases "handleSubmit_upload api_upload s") auto
    from handleSubmit_upload_files [OF hs] Pair inv Submit hs show ?thesis
      by (auto simp: all_valid_def)
  qed
qed

lemma upload_run_valid: "all_valid (upload_run table events)"
proof -
  have "all_valid c \<Longrightarrow> all_valid (foldl (upload_step table) c events)" for c
    by (induction events arbitrary: c) (simp_all add: upload_step_valid)
  moreover have "all_valid (upload_initial, [])"
    by (simp add: all_valid_def upload_initial_def)
  ultimately show ?thesis by (simp add: upload_run_def)
qed

lemma withMimeType_typed: "file_type f \<noteq> [] \<Longrightarrow> withMimeType table f = f"
  by (simp add: withMimeType_def split: option.splits)

text \<open>
  C6, as stated, fails for the allowlist. A file \<open>tool.exe\<close> of the type
  \<open>application/x-moz-file\<close> and a file \<open>server.log\<close> with an empty type are both
  outside the allowlist, by MIME type and by extension, and neither exceeds the maximum
  size. The dropzone accepts the first for its type, and the second after file-selector
  has given it the type \<open>text/plain\<close> that its table lists for \<open>log\<close>. Both are
  added to the selected files, and submitting the form issues an upload request for
  each.
\<close>

theorem upload_allowlist_counterexample:
  "type_outside_allowlist
     \<lparr>file_name = ''tool.exe'', file_type = ''application/x-moz-file'', file_size = 2048\<rparr>
   \<and> type_outside_allowlist \<lparr>file_name = ''server.log'', file_type = [], file_size = 2048\<rparr>
   \<and> (2048::nat) \<le> maxSize
   \<and> acceptedFiles log_mime_table
        [\<lparr>file_name = ''tool.exe'', file_type = ''application/x-moz-file'', file_size = 2048\<rparr>,
         \<lparr>file_name = ''server.log'', file_type = [], file_size = 2048\<rparr>]
      = [\<lparr>file_name = ''tool.exe'', file_type = ''application/x-moz-file'', file_size = 2048\<rparr>,
         \<lparr>file_name = ''server.log'', file_type = ''text/plain'', file_size = 2048\<rparr>]
   \<and> upload_run log_mime_table
        [Offer [\<lparr>file_name = ''tool.exe'', file_type = ''application/x-moz-file'',
                 file_size = 2048\<rparr>,
                \<lparr>file_name = ''server.log'', file_type = [], file_size = 2048\<rparr>]
               (\<lambda>k. if k = 0 then ''id0'' else ''id1''),
         Submit (\<lambda>_. True)]
      = (upload_initial,
         [\<lparr>up_file = \<lparr>file_name = ''tool.exe'', file_type = ''application/x-moz-file'',
                       file_size = 2048\<rparr>,
           up_title = ''tool.exe'', up_description = []\<rparr>,
          \<lparr>up_file = \<lparr>file_name = ''server.log'', file_type = ''text/plain'',
                       file_size = 2048\<rparr>,
           up_title = ''server.log'', up_description = []\<rparr>])"
proof -
  let ?tool = "\<lparr>file_name = ''tool.exe'', file_type = ''application/x-moz-file'',
                file_size = 2048\<rparr>"
  let ?log = "\<lparr>file_name = ''server.log'', file_type = [], file_size = 2048\<rparr>"
  let ?filled = "\<lparr>file_name = ''server.log'', file_type = ''text/plain'', file_size = 2048\<rparr>"
  let ?table = "log_mime_table"
  have o1: "type_outside_allowlist ?tool" by code_simp
  have o2: "type_outside_allowlist ?log" by code_simp
  have sz: "(2048::nat) \<le> maxSize" by (simp add: maxSize_def)
  have w1: "withMimeType ?table ?tool = ?tool" by code_simp
  have w2: "withMimeType ?table ?log = ?filled" by code_simp
  have a1: "fileAccepted ?tool" by (simp add: fileAccepted_def)
  have a2: "fileAccepted ?filled" by code_simp
  have acc: "acceptedFiles ?table [?tool, ?log] = [?tool, ?filled]"
    by (simp only: acceptedFiles_def list.map w1 w2)
       (simp add: a1 a2 fileMatchSize_def maxSize_def)
  have run: "upload_run ?table
        [Offer [?tool, ?log] (\<lambda>k. if k = 0 then ''id0'' else ''id1''), Submit (\<lambda>_. True)]
      = (upload_initial,
         [\<lparr>up_file = ?tool, up_title = ''tool.exe'', up_description = []\<rparr>,
          \<lparr>up_file = ?filled, up_title = ''server.log'', up_description = []\<rparr>])"
    by (simp add: upload_run_def upload_initial_def acc onDrop_def
        handleSubmit_upload_def Let_def uploadDocument_def mark_uploaded_def)
  from o1 o2 sz acc run show ?thesis by simp
qed

text \<open>
  C6, amended. A file offered for upload is rejected at selection when its size
  exceeds the maximum of 10 MB, or when the file, as file-selector hands it to the
  dropzone (an empty type filled in from the extension), is outside the allowlist
  pdf, docx, txt, md by MIME type and by extension and is not of the type
  \<open>application/x-moz-file\<close>. Such a file is not among the accepted files of any
  drop, and after any sequence of drops, removals, edits and submissions it is neither
  in the list of selected files nor the file of any upload request.
\<close>

theorem rejected_file_never_selected:
  assumes "maxSize < file_size f
           \<or> (type_outside_allowlist (withMimeType table f)
              \<and> file_type (withMimeType table f) \<noteq> ''application/x-moz-file'')"
  shows "withMimeType table f \<notin> set (acceptedFiles table offered)
       \<and> withMimeType table f \<notin> fo_file ` set (uploadedFiles (fst (upload_run table events)))
       \<and> withMimeType table f \<notin> up_file ` set (snd (upload_run table events))"
proof -
  from assms have nv: "\<not> valid_upload (withMimeType table f)"
    using outside_allowlist_not_accepted [of "withMimeType table f"]
    by (auto simp: valid_upload_def fileMatchSize_def fileAccepted_def withMimeType_size)
  then have "withMimeType table f \<notin> set (acceptedFiles table offered)"
    by (simp add: acceptedFiles_valid)
  moreover from upload_run_valid [of table events] nv
  have "withMimeType table f \<notin> fo_file ` set (uploadedFiles (fst (upload_run table events)))"
    and "withMimeType table f \<notin> up_file ` set (snd (upload_run table events))"
    unfolding all_valid_def by blast+
  ultimately show ?thesis by simp
qed

theorem rejected_file_never_selected_witness:
  "type_outside_allowlist (withMimeType log_mime_table
      \<lparr>file_name = ''Photo.PNG'', file_type = ''image/png'', file_size = 2048\<rparr>)
   \<and> file_type (withMimeType log_mime_table
        \<lparr>file_name = ''Photo.PNG'', file_type = ''image/png'', file_size = 2048\<rparr>)
       \<noteq> ''application/x-moz-file''
   \<and> maxSize < file_size \<lparr>file_name = ''big.pdf'', file_type = ''application/pdf'',
                             file_size = 11000000\<rparr>
   \<and> acceptedFiles log_mime_table
        [\<lparr>file_name = ''Photo.PNG'', file_type = ''image/png'', file_size = 2048\<rparr>,
         \<lparr>file_name = ''Report.PDF'', file_type = [], file_size = 2048\<rparr>,
         \<lparr>file_name = ''big.pdf'', file_type = ''application/pdf'', file_size = 11000000\<rparr>]
      = [\<lparr>file_name = ''Report.PDF'', file_type = [], file_size = 2048\<rparr>]
   \<and> upload_run log_mime_table
        [Offer [\<lparr>file_name = ''Photo.PNG'', file_type = ''image/png'', file_size = 2048\<rparr>,
                \<lparr>file_name = ''Report.PDF'', file_type = [], file_size = 2048\<rparr>,
                \<lparr>file_name = ''big.pdf'', file_type = ''application/pdf'',
                 file_size = 11000000\<rparr>]
               (\<lambda>k. ''id''),
         Submit (\<lambda>_. True)]
      = (upload_initial,
         [\<lparr>up_file = \<lparr>file_name = ''Report.PDF'', file_type = [], file_size = 2048\<rparr>,
           up_title = ''Report'', up_description = []\<rparr>])
   \<and> \<lparr>file_name = ''Photo.PNG'', file_type = ''image/png'', file_size = 2048\<rparr>
       \<notin> up_file ` set (snd (upload_run log_mime_table
           [Offer [\<lparr>file_name = ''Photo.PNG'', file_type = ''image/png'', file_size = 2048\<rparr>,
                   \<lparr>file_name = ''Report.PDF'', file_type = [], file_size = 2048\<rparr>,
                   \<lparr>file_name = ''big.pdf'', file_type = ''application/pdf'',
                    file_size = 11000000\<rparr>]
                  (\<lambda>k. ''id''),
            Submit (\<lambda>_. True)]))
   \<and> \<lparr>file_name = ''big.pdf'', file_type = ''application/pdf'', file_size = 11000000\<rparr>
       \<notin> up_file ` set (snd (upload_run log_mime_table
           [Offer [\<lparr>file_name = ''Photo.PNG'', file_type = ''image/png'', file_size = 2048\<rparr>,
                   \<lparr>file_name = ''Report.PDF'', file_type = [], file_size = 2048\<rparr>,
                   \<lparr>file_name = ''big.pdf'', file_type = ''application/pdf'',
                    file_size = 11000000\<rparr>]
                  (\<lambda>k. ''id''),
            Submit (\<lambda>_. True)]))"
proof -
  let ?photo = "\<lparr>file_name = ''Photo.PNG'', file_type = ''image/png'', file_size = 2048\<rparr>"
  let ?report = "\<lparr>file_name = ''Report.PDF'', file_type = [], file_size = 2048\<rparr>"
  let ?big = "\<lparr>file_name = ''big.pdf'', file_type = ''application/pdf'',
               file_size = 11000000\<rparr>"
  let ?table = "log_mime_table"
  let ?events = "[Offer [?photo, ?report, ?big] (\<lambda>k. ''id''), Submit (\<lambda>_. True)]"
  have wp: "withMimeType ?table ?photo = ?photo" by (simp add: withMimeType_typed)
  have wb: "withMimeType ?table ?big = ?big" by (simp add: withMimeType_typed)
  have photo: "type_outside_allowlist ?photo" by code_simp
  have big: "maxSize < file_size ?big" by (simp add: maxSize_def)
  have ext: "remove_extension ''Report.PDF'' = ''Report''"
    by (simp add: remove_extension_def Let_def)
  have wr: "withMimeType ?table ?report = ?report" by code_simp
  have np: "\<not> fileAccepted ?photo" by code_simp
  have ar: "fileAccepted ?report" by code_simp
  have acc: "acceptedFiles ?table [?photo, ?report, ?big] = [?report]"
    by (simp only: acceptedFiles_def list.map wp wr wb)
       (simp add: np ar fileMatchSize_def maxSize_def)
  have run: "upload_run ?table ?events
      = (upload_initial,
         [\<lparr>up_file = ?report, up_title = ''Report'', up_description = []\<rparr>])"
    by (simp add: upload_run_def upload_initial_def acc ext onDrop_def
        handleSubmit_upload_def Let_def uploadDocument_def mark_uploaded_def)
  from photo have h1: "maxSize < file_size ?photo
      \<or> (type_outside_allowlist (withMimeType ?table ?photo)
         \<and> file_type (withMimeType ?table ?photo) \<noteq> ''application/x-moz-file'')"
    by (simp add: wp)
  from big have h2: "maxSize < file_size ?big
      \<or> (type_outside_allowlist (withMimeType ?table ?big)
         \<and> file_type (withMimeType ?table ?big) \<noteq> ''application/x-moz-file'')"
    by simp
  from rejected_file_never_selected [OF h1, of "[?photo, ?report, ?big]" ?events]
    rejected_file_never_selected [OF h2, of "[?photo, ?report, ?big]" ?events]
    photo big acc run wp wb
  show ?thesis by simp
qed

end
